theory Spec2Isabelle
  imports Complex_Main "HOL-Library.AList" "HOL-Library.Sublist" "HOL-Library.Char_ord"
    "HOL-Library.List_Lexorder"
begin

section \<open>Python values used by the data access layer\<close>

text \<open>
  Python strings are modelled as \<^typ>\<open>string\<close>. The source's Russian literals are
  written character for character with their Windows-1251 byte as the character code, so
  that length, equality, prefix and substring tests agree with the source on every string
  made of ASCII and Cyrillic letters. Clock readings (\<open>time.time()\<close>) are real numbers
  handed to the operation that reads the clock; the formatted current date and time
  (\<open>datetime.now(MSK_TIMEZONE).strftime(...)\<close>) are handed in as strings.
\<close>

text \<open>\<open>str(n)\<close> for an integer: the decimal digits, with a leading minus sign.\<close>

fun str_nat :: "nat \<Rightarrow> string" where
  "str_nat n = (if n < 10 then [''0123456789'' ! n]
                else str_nat (n div 10) @ [''0123456789'' ! (n mod 10)])"

declare str_nat.simps [simp del]

definition str_int :: "int \<Rightarrow> string" where
  "str_int i = (if i < 0 then CHR ''-'' # str_nat (nat (- i)) else str_nat (nat i))"

text \<open>\<open>pattern in k\<close> on strings: \<open>pattern\<close> occurs in \<open>k\<close> as a contiguous substring.\<close>

fun contains :: "string \<Rightarrow> string \<Rightarrow> bool" where
  "contains p [] = (p = [])"
| "contains p (c # s) = (prefix p (c # s) \<or> contains p s)"

text \<open>\<open>sep.join(xs)\<close>.\<close>

fun join :: "string \<Rightarrow> string list \<Rightarrow> string" where
  "join sep [] = []"
| "join sep [x] = x"
| "join sep (x # y # ys) = x @ sep @ join sep (y # ys)"

text \<open>
  The values that occur as arguments of the cached read operations: \<open>None\<close>, booleans,
  integers (transaction and chat identifiers) and strings (dates), with Python's \<open>str\<close>
  and truth value.
\<close>

datatype pyarg = ANone | ABool bool | AInt int | AStr string

fun py_str :: "pyarg \<Rightarrow> string" where
  "py_str ANone = ''None''"
| "py_str (ABool b) = (if b then ''True'' else ''False'')"
| "py_str (AInt i) = str_int i"
| "py_str (AStr s) = s"

fun truthy :: "pyarg \<Rightarrow> bool" where
  "truthy ANone = False"
| "truthy (ABool b) = b"
| "truthy (AInt i) = (i \<noteq> 0)"
| "truthy (AStr s) = (s \<noteq> [])"

text \<open>
  A transaction dictionary and the \<open>data\<close> dictionary of a write map string keys to
  values; the values are integers (the \<open>id\<close>) and strings (everything that is read from a
  spreadsheet cell). A number with a fractional part reaches the store as its text.
  Dictionaries keep insertion order and hold a key once, so they are association lists
  maintained by \<^const>\<open>AList.update\<close>.
\<close>

datatype pyval = PInt int | PStr string

type_synonym pydict = "(string \<times> pyval) list"

text \<open>\<open>d.get(k, default)\<close>.\<close>

definition dict_get :: "pydict \<Rightarrow> string \<Rightarrow> pyval \<Rightarrow> pyval" where
  "dict_get d k dflt = (case map_of d k of Some v \<Rightarrow> v | None \<Rightarrow> dflt)"

text \<open>\<open>str(v)\<close> of a dictionary value; it is also the text a spreadsheet cell shows
  after the value has been written to it.\<close>

fun str_val :: "pyval \<Rightarrow> string" where
  "str_val (PInt i) = str_int i"
| "str_val (PStr s) = s"

text \<open>\<open>str(x)\<close> of a value that may be \<open>None\<close>.\<close>

definition str_opt :: "pyval option \<Rightarrow> string" where
  "str_opt x = (case x of None \<Rightarrow> ''None'' | Some v \<Rightarrow> str_val v)"

text \<open>
  The day-settings dictionary. Its keys come from a fixed set: \<open>get_day_settings\<close> builds
  \<open>date\<close>, \<open>rate\<close>, \<open>commission_percent\<close>; the offline store starts with \<open>rate\<close> and
  \<open>commission\<close>. A key that is absent is \<open>None\<close>.
\<close>

record settings_dict =
  date :: "string option"
  rate :: "real option"
  commission_percent :: "real option"
  commission :: "real option"

text \<open>The statistics dictionary; the empty statistics have no \<open>date\<close> key, and the
  relational store's statistics have no \<open>methods_count\<close> key.\<close>

record stats =
  stats_date :: "string option"
  transactions_count :: nat
  total_amount :: real
  awaiting_amount :: real
  to_pay_amount :: real
  paid_amount :: real
  avg_rate :: real
  avg_commission :: real
  unpaid_usdt :: real
  to_pay_usdt :: real
  total_usdt :: real
  paid_usdt :: real
  methods_count :: "(pyval \<times> nat) list option"

text \<open>What a read operation returns, and so what the cache stores.\<close>

datatype result =
    RNone
  | RBool bool
  | RFloat real
  | RDict pydict
  | RList "pydict list"
  | RSettings settings_dict
  | RStats stats

datatype exc =
  BackendError | KeyError | IndexError | ValueError | TypeError | AttributeError | OverflowError

section \<open>sheets.py: CacheManager\<close>

definition CACHE_DURATION :: real where
  "CACHE_DURATION = 10"

record CacheManager =
  cache :: "(string \<times> real \<times> result) list"
  hits :: nat
  misses :: nat
  last_access_time :: "(string \<times> real) list"
  invalidations :: nat

definition CacheManager_init :: CacheManager where
  "CacheManager_init =
     \<lparr>cache = [], hits = 0, misses = 0, last_access_time = [], invalidations = 0\<rparr>"

text \<open>\<open>CacheManager.get(key)\<close>, with the clock reading \<open>now\<close>; returns the pair
  \<open>(value, exists)\<close> and the updated manager.\<close>

definition CacheManager_get ::
  "CacheManager \<Rightarrow> string \<Rightarrow> real \<Rightarrow> (result \<times> bool) \<times> CacheManager" where
  "CacheManager_get cm key now =
     (let cm1 = cm\<lparr>last_access_time := AList.update key now (last_access_time cm)\<rparr> in
      case map_of (cache cm1) key of
        Some (timestamp, v) \<Rightarrow>
          if now - timestamp < CACHE_DURATION
          then ((v, True), cm1\<lparr>hits := hits cm1 + 1\<rparr>)
          else ((RNone, False),
                cm1\<lparr>cache := AList.delete key (cache cm1),
                    invalidations := invalidations cm1 + 1,
                    misses := misses cm1 + 1\<rparr>)
      | None \<Rightarrow> ((RNone, False), cm1\<lparr>misses := misses cm1 + 1\<rparr>))"

text \<open>\<open>CacheManager.set(key, value)\<close>.\<close>

definition CacheManager_set :: "CacheManager \<Rightarrow> string \<Rightarrow> result \<Rightarrow> real \<Rightarrow> CacheManager" where
  "CacheManager_set cm key v now = cm\<lparr>cache := AList.update key (now, v) (cache cm)\<rparr>"

text \<open>\<open>CacheManager.invalidate(key)\<close>; \<open>None\<close> clears every entry.\<close>

definition CacheManager_invalidate :: "CacheManager \<Rightarrow> string option \<Rightarrow> CacheManager" where
  "CacheManager_invalidate cm key =
     (case key of
        None \<Rightarrow> cm\<lparr>cache := [], invalidations := invalidations cm + length (cache cm)\<rparr>
      | Some k \<Rightarrow>
          if map_of (cache cm) k \<noteq> None
          then cm\<lparr>cache := AList.delete k (cache cm), invalidations := invalidations cm + 1\<rparr>
          else cm)"

text \<open>\<open>CacheManager.invalidate_pattern(pattern)\<close>.\<close>

definition CacheManager_invalidate_pattern :: "CacheManager \<Rightarrow> string \<Rightarrow> CacheManager" where
  "CacheManager_invalidate_pattern cm pattern =
     (let keys_to_delete = filter (contains pattern) (map fst (cache cm)) in
      cm\<lparr>cache := filter (\<lambda>e. \<not> contains pattern (fst e)) (cache cm),
         invalidations := invalidations cm + length keys_to_delete\<rparr>)"

text \<open>\<open>CacheManager.invalidate_transaction_cache(transaction_id)\<close>; the identifier is
  \<open>None\<close> or a value.\<close>

definition CacheManager_invalidate_transaction_cache ::
  "CacheManager \<Rightarrow> pyval option \<Rightarrow> CacheManager" where
  "CacheManager_invalidate_transaction_cache cm transaction_id =
     (case transaction_id of
        Some i \<Rightarrow> CacheManager_invalidate cm (Some (''get_transaction:'' @ str_val i))
      | None \<Rightarrow>
          foldl CacheManager_invalidate_pattern cm
            [''get_transaction'', ''get_all_transactions'', ''get_daily_transactions'',
             ''get_unpaid_transactions'', ''get_daily_statistics''])"

section \<open>sheets.py: the client and the read-through decorator\<close>

text \<open>
  The state of a \<open>GoogleSheetsClient\<close>: its attributes, and (in live mode) the remote
  spreadsheet it talks to. A worksheet is the list of its rows, the header row first, each
  row the list of its cell texts as the API returns them. The two auxiliary worksheets may
  not exist yet (\<open>None\<close>: opening them raises \<open>WorksheetNotFound\<close>).
\<close>

record GoogleSheetsClient =
  client_cache :: "(string \<times> stats) list"
  cache_manager :: CacheManager
  dummy_mode :: bool
  daily_transactions :: "pydict list"
  day_settings :: "settings_dict option"
  day_open :: bool
  sheet :: "string list list"
  DaySettings :: "string list list option"
  DayStatus :: "string list list option"

text \<open>A key pattern such as \<open>"get_transaction:{0}"\<close>, split into its literal text and its
  positional replacement fields.\<close>

datatype piece = Lit string | Field nat

text \<open>\<open>key_pattern.format(*full_args)\<close>; a field beyond the arguments raises
  \<open>IndexError\<close>.\<close>

fun format_pattern :: "piece list \<Rightarrow> string list \<Rightarrow> string option" where
  "format_pattern [] full_args = Some []"
| "format_pattern (Lit s # ps) full_args = map_option ((@) s) (format_pattern ps full_args)"
| "format_pattern (Field i # ps) full_args =
     (if i < length full_args
      then map_option ((@) (full_args ! i)) (format_pattern ps full_args)
      else None)"

text \<open>The cache key the decorator computes from the call's arguments.\<close>

definition cache_key ::
  "piece list \<Rightarrow> string \<Rightarrow> pyarg list \<Rightarrow> (string \<times> pyarg) list \<Rightarrow> string" where
  "cache_key key_pattern function_name args kwargs =
     (let arg_strings = map py_str args;
          kwarg_strings = map (\<lambda>kv. fst kv @ ''='' @ py_str (snd kv))
                              (filter (\<lambda>kv. fst kv \<noteq> ''force_cache'') kwargs);
          full_args = arg_strings @ kwarg_strings
      in if full_args \<noteq> []
         then (case format_pattern key_pattern full_args of
                 Some key \<Rightarrow> key
               | None \<Rightarrow> function_name @ '':'' @ join '','' full_args)
         else function_name)"

text \<open>
  The wrapper that \<open>cache_result(key_pattern)\<close> puts around a method. \<open>DEBUG\<close> is the
  configuration flag; \<open>func\<close> is the undecorated method, already applied to the call's
  arguments \<open>args\<close> (without \<open>self\<close>) and \<open>kwargs\<close>, acting on the client. \<open>t_get\<close> and
  \<open>t_set\<close> are the clock readings of the lookup and of the store.
\<close>

definition cache_result ::
  "bool \<Rightarrow> piece list \<Rightarrow> string \<Rightarrow> (GoogleSheetsClient \<Rightarrow> result \<times> GoogleSheetsClient) \<Rightarrow>
   pyarg list \<Rightarrow> (string \<times> pyarg) list \<Rightarrow> real \<Rightarrow> real \<Rightarrow>
   GoogleSheetsClient \<Rightarrow> result \<times> GoogleSheetsClient" where
  "cache_result DEBUG key_pattern function_name func args kwargs t_get t_set self =
     (if dummy_mode self then func self
      else if DEBUG \<and> \<not> (case map_of kwargs ''force_cache'' of Some v \<Rightarrow> truthy v | None \<Rightarrow> False)
      then func self
      else
        let key = cache_key key_pattern function_name args kwargs;
            ((v, exists), cm1) = CacheManager_get (cache_manager self) key t_get;
            self1 = self\<lparr>cache_manager := cm1\<rparr>
        in if exists then (v, self1)
           else
             let (r, self2) = func self1
             in if r \<noteq> RNone
                then (r, self2\<lparr>cache_manager := CacheManager_set (cache_manager self2) key r t_set\<rparr>)
                else (r, self2))"

section \<open>data_manager.py: the statistics cache of the facade\<close>

text \<open>
  The keys of \<open>DataManager.stats_cache\<close>: the dictionary is written under string keys and
  tested with an integer key. In Python an integer never equals a string.
\<close>

datatype pykey = KInt int | KStr string

record DataManager =
  data_source :: string
  stats_cache :: "(pykey \<times> stats) list"

text \<open>
  \<open>DataManager.get_daily_statistics(chat_id, force_refresh)\<close>. The two backends'
  \<open>get_daily_statistics\<close> are the parameters \<open>db_stats\<close> and \<open>sheets_stats\<close>, acting on the
  backend state of type \<open>'b\<close>.
\<close>

definition DataManager_get_daily_statistics ::
  "(int \<Rightarrow> bool \<Rightarrow> 'b \<Rightarrow> stats \<times> 'b) \<Rightarrow> (int \<Rightarrow> bool \<Rightarrow> 'b \<Rightarrow> stats \<times> 'b) \<Rightarrow>
   int \<Rightarrow> bool \<Rightarrow> DataManager \<times> 'b \<Rightarrow> stats \<times> DataManager \<times> 'b" where
  "DataManager_get_daily_statistics db_stats sheets_stats chat_id force_refresh s =
     (let self = fst s; backend = snd s;
          cache_key = KStr (''day_stats_'' @ str_int chat_id)
      in case (if force_refresh then None else map_of (stats_cache self) cache_key) of
           Some cached \<Rightarrow> (cached, self, backend)
         | None \<Rightarrow>
             let (r, backend') =
                   (if data_source self = ''database''
                    then db_stats chat_id force_refresh backend
                    else sheets_stats chat_id force_refresh backend)
             in (r, self\<lparr>stats_cache := AList.update cache_key r (stats_cache self)\<rparr>, backend'))"

text \<open>\<open>DataManager.clear_stats_cache(chat_id)\<close>.\<close>

definition DataManager_clear_stats_cache :: "int \<Rightarrow> DataManager \<Rightarrow> DataManager" where
  "DataManager_clear_stats_cache chat_id self =
     (if map_of (stats_cache self) (KInt chat_id) \<noteq> None
      then self\<lparr>stats_cache := AList.delete (KInt chat_id) (stats_cache self)\<rparr>
      else self)"

text \<open>A client as \<open>__init__\<close> leaves it when the spreadsheet is reachable: empty caches,
  live mode, talking to the worksheet \<open>rows\<close>. The attributes of the offline store do not
  exist in live mode and are never read there.\<close>

definition GoogleSheetsClient_init :: "string list list \<Rightarrow> GoogleSheetsClient" where
  "GoogleSheetsClient_init rows =
     \<lparr>client_cache = [], cache_manager = CacheManager_init, dummy_mode = False,
      daily_transactions = [], day_settings = None, day_open = False, sheet = rows,
      DaySettings = None, DayStatus = None\<rparr>"

text \<open>The validity test of \<open>CacheManager.get\<close>: the key has an entry that is younger than
  \<open>CACHE_DURATION\<close> at the clock reading \<open>now\<close>.\<close>

definition entry_valid :: "CacheManager \<Rightarrow> string \<Rightarrow> real \<Rightarrow> bool" where
  "entry_valid cm key now =
     (case map_of (cache cm) key of
        Some (timestamp, v) \<Rightarrow> now - timestamp < CACHE_DURATION
      | None \<Rightarrow> False)"

section \<open>sheets.py: the spreadsheet API and the transaction operations\<close>

text \<open>The status texts of the source: \<open>STATUS_NOT_PAID\<close> is the Russian for "not paid
  out" that \<open>add_transaction\<close> writes, \<open>STATUS_PAID\<close> the Russian for "paid out" that
  \<open>mark_transaction_paid\<close> writes.\<close>

definition STATUS_NOT_PAID :: string where
  "STATUS_NOT_PAID = [CHR 0xCD, CHR 0xE5, CHR '' '', CHR 0xE2, CHR 0xFB, CHR 0xEF, CHR 0xEB,
                      CHR 0xE0, CHR 0xF7, CHR 0xE5, CHR 0xED, CHR 0xEE]"

definition STATUS_PAID :: string where
  "STATUS_PAID = [CHR 0xC2, CHR 0xFB, CHR 0xEF, CHR 0xEB, CHR 0xE0, CHR 0xF7, CHR 0xE5,
                  CHR 0xED, CHR 0xEE]"

text \<open>
  A call of the remote API either returns or raises. Every operation takes \<open>fault\<close>, the
  position (counted from 0 within the operation) of the first remote call that raises, or
  \<open>None\<close> when the backend answers every call; the call that raises has no effect.
\<close>

definition api :: "nat option \<Rightarrow> nat \<Rightarrow> 'a \<Rightarrow> exc + 'a" where
  "api fault n r = (if fault = Some n then Inl BackendError else Inr r)"

definition bindE :: "exc + 'a \<Rightarrow> ('a \<Rightarrow> exc + 'b) \<Rightarrow> exc + 'b" where
  "bindE m f = (case m of Inl e \<Rightarrow> Inl e | Inr x \<Rightarrow> f x)"

text \<open>\<open>sheet.col_values(1)\<close>, \<open>sheet.row_values(i)\<close> (rows are numbered from 1) and
  \<open>sheet.update('A{i}:J{i}', [row])\<close>.\<close>

definition col_values :: "string list list \<Rightarrow> string list" where
  "col_values rows = map (\<lambda>r. case r of [] \<Rightarrow> [] | c # cs \<Rightarrow> c) rows"

definition row_values :: "string list list \<Rightarrow> nat \<Rightarrow> string list" where
  "row_values rows i = (if 1 \<le> i \<and> i \<le> length rows then rows ! (i - 1) else [])"

definition update_cells :: "string list list \<Rightarrow> nat \<Rightarrow> string list \<Rightarrow> string list list" where
  "update_cells rows i row = rows[i - 1 := row @ drop (length row) (rows ! (i - 1))]"

text \<open>The loop \<open>for i, value in enumerate(id_col): if value == str(transaction_id):
  row_idx = i + 1; break\<close>.\<close>

definition find_row :: "string list \<Rightarrow> string \<Rightarrow> nat option" where
  "find_row id_col s =
     map_option (\<lambda>p. fst p + 1) (List.find (\<lambda>p. snd p = s) (enumerate 0 id_col))"

text \<open>
  \<open>s.strip()\<close>, \<open>s.isdigit()\<close> and \<open>int(s)\<close>. The whitespace characters of the
  Windows-1251 repertoire are the space, the control characters \<open>0x09\<close> to \<open>0x0D\<close> and
  \<open>0x1C\<close> to \<open>0x1F\<close>, and the no-break space \<open>0xA0\<close>; its decimal digits are the ASCII
  ones. \<open>int(s)\<close> takes surrounding whitespace, an optional sign, and decimal digits in
  which single underscores may stand between two digits; \<open>None\<close> is \<open>ValueError\<close>.
\<close>

definition is_space :: "char \<Rightarrow> bool" where
  "is_space c = (c \<in> set [CHR '' '', CHR 0x09, CHR 0x0A, CHR 0x0B, CHR 0x0C, CHR 0x0D,
                            CHR 0x1C, CHR 0x1D, CHR 0x1E, CHR 0x1F, CHR 0xA0])"

definition strip :: "string \<Rightarrow> string" where
  "strip s = rev (dropWhile is_space (rev (dropWhile is_space s)))"

definition digit_val :: "char \<Rightarrow> nat option" where
  "digit_val c = map_of (zip ''0123456789'' [0, 1, 2, 3, 4, 5, 6, 7, 8, 9]) c"

definition isdigit :: "string \<Rightarrow> bool" where
  "isdigit s = (s \<noteq> [] \<and> list_all (\<lambda>c. digit_val c \<noteq> None) s)"

fun digits_nat :: "string \<Rightarrow> nat \<Rightarrow> nat option" where
  "digits_nat [] acc = Some acc"
| "digits_nat (c # cs) acc =
     (case digit_val c of None \<Rightarrow> None | Some d \<Rightarrow> digits_nat cs (10 * acc + d))"

text \<open>A group of digits as a numeral may write it: it starts and ends with a digit, and
  every underscore stands between two digits. \<open>ungroup\<close> gives its digits.\<close>

fun ungroup_rest :: "string \<Rightarrow> string option" where
  "ungroup_rest [] = Some []"
| "ungroup_rest (c # cs) =
     (if c = CHR ''_''
      then (case cs of
              [] \<Rightarrow> None
            | d # ds \<Rightarrow> if digit_val d = None then None
                        else map_option ((#) d) (ungroup_rest ds))
      else if digit_val c = None then None
      else map_option ((#) c) (ungroup_rest cs))"

definition ungroup :: "string \<Rightarrow> string option" where
  "ungroup s =
     (case s of
        [] \<Rightarrow> None
      | c # cs \<Rightarrow> if digit_val c = None then None else map_option ((#) c) (ungroup_rest cs))"

definition group_nat :: "string \<Rightarrow> nat option" where
  "group_nat s = (case ungroup s of None \<Rightarrow> None | Some ds \<Rightarrow> digits_nat ds 0)"

text \<open>A group of digits with an optional sign, as in \<open>int(s)\<close> and in the exponent of a
  floating-point numeral.\<close>

definition signed_group :: "string \<Rightarrow> int option" where
  "signed_group s =
     (case s of
        [] \<Rightarrow> None
      | c # cs \<Rightarrow>
          if c = CHR ''-'' then map_option (\<lambda>n. - int n) (group_nat cs)
          else if c = CHR ''+'' then map_option int (group_nat cs)
          else map_option int (group_nat (c # cs)))"

definition py_int :: "string \<Rightarrow> int option" where
  "py_int s = signed_group (strip s)"

text \<open>\<open>d[k]\<close> raises \<open>KeyError\<close> for a missing key.\<close>

definition dict_index :: "pydict \<Rightarrow> string \<Rightarrow> exc + pyval" where
  "dict_index d k = (case map_of d k of None \<Rightarrow> Inl KeyError | Some v \<Rightarrow> Inr v)"

text \<open>The offline store of \<open>_initialize_dummy_mode\<close>, seeded with one sample transaction
  (its status text is the Russian for "not paid for").\<close>

definition initialize_dummy_mode :: "string \<Rightarrow> GoogleSheetsClient \<Rightarrow> GoogleSheetsClient" where
  "initialize_dummy_mode now_text self =
     self\<lparr>dummy_mode := True,
          client_cache := [],
          daily_transactions :=
            [[(''id'', PInt 1), (''datetime'', PStr now_text), (''amount'', PInt 10000),
              (''method'', PStr ''USDT TRC20''), (''commission'', PStr ''5.0''),
              (''rate'', PStr ''92.5''),
              (''status'', PStr [CHR 0xCD, CHR 0xE5, CHR '' '', CHR 0xEE, CHR 0xEF, CHR 0xEB,
                                 CHR 0xE0, CHR 0xF7, CHR 0xE5, CHR 0xED, CHR 0xEE]),
              (''group'', PStr ''Test Group''), (''hash'', PStr '''')]],
          day_settings := Some \<lparr>date = None, rate = Some 92.5, commission_percent = None,
                                 commission = Some 5\<rparr>,
          day_open := True\<rparr>"

subsection \<open>add_transaction\<close>

text \<open>\<open>max(t.get("id", 0) for t in self.daily_transactions) + 1\<close>: an identifier that is
  a string makes the comparison or the addition raise \<open>TypeError\<close>.\<close>

fun dummy_ids :: "pydict list \<Rightarrow> exc + int list" where
  "dummy_ids [] = Inr []"
| "dummy_ids (t # ts) =
     (case dict_get t ''id'' (PInt 0) of
        PStr s \<Rightarrow> Inl TypeError
      | PInt i \<Rightarrow> bindE (dummy_ids ts) (\<lambda>is. Inr (i # is)))"

definition list_max :: "int list \<Rightarrow> int" where
  "list_max xs = fold max (tl xs) (hd xs)"

text \<open>The body of the \<open>try\<close> block of \<open>add_transaction(data)\<close>; \<open>now_text\<close> is the formatted
  current time.\<close>

definition add_transaction_try ::
  "nat option \<Rightarrow> string \<Rightarrow> pydict \<Rightarrow> GoogleSheetsClient \<Rightarrow> exc + (int \<times> GoogleSheetsClient)" where
  "add_transaction_try fault now_text data self =
     (if dummy_mode self then
        bindE (if daily_transactions self \<noteq> []
               then bindE (dummy_ids (daily_transactions self)) (\<lambda>is. Inr (list_max is + 1))
               else Inr 1) (\<lambda>new_id.
        bindE (dict_index data ''amount'') (\<lambda>amount.
        bindE (dict_index data ''method'') (\<lambda>method.
        bindE (dict_index data ''commission'') (\<lambda>commission.
        bindE (dict_index data ''rate'') (\<lambda>rate.
          let transaction =
                [(''id'', PInt new_id), (''datetime'', PStr now_text), (''amount'', amount),
                 (''method'', method), (''commission'', commission), (''rate'', rate),
                 (''status'', PStr STATUS_NOT_PAID),
                 (''group'', dict_get data ''group'' (PStr ''Development Group'')),
                 (''hash'', PStr ''''),
                 (''chat_id'', dict_get data ''chat_id'' (PStr ''''))]
          in Inr (new_id,
                  self\<lparr>daily_transactions := daily_transactions self @ [transaction],
                       cache_manager :=
                         CacheManager_invalidate_transaction_cache (cache_manager self) None\<rparr>))))))
      else
        bindE (api fault 0 (col_values (sheet self))) (\<lambda>id_col.
        let all_ids = tl id_col in
        bindE (if all_ids \<noteq> []
               then (case filter isdigit all_ids of
                       [] \<Rightarrow> Inl ValueError
                     | ds \<Rightarrow> Inr (list_max (map (\<lambda>d. int (the (digits_nat d 0))) ds) + 1))
               else Inr 1) (\<lambda>new_id.
        bindE (dict_index data ''amount'') (\<lambda>amount.
        bindE (dict_index data ''method'') (\<lambda>method.
        bindE (dict_index data ''commission'') (\<lambda>commission.
        bindE (dict_index data ''rate'') (\<lambda>rate.
          let row = [str_int new_id, now_text, str_val amount, str_val method,
                     str_val commission, str_val rate, STATUS_NOT_PAID,
                     str_val (dict_get data ''group'' (PStr '''')), '''',
                     str_val (dict_get data ''chat_id'' (PStr ''''))]
          in bindE (api fault 1 (sheet self @ [row])) (\<lambda>sheet'.
             Inr (new_id,
                  self\<lparr>sheet := sheet',
                       cache_manager :=
                         CacheManager_invalidate_transaction_cache (cache_manager self) None\<rparr>)))))))))"

text \<open>\<open>GoogleSheetsClient.add_transaction(data)\<close>: the \<open>except\<close> clause logs and raises the
  exception again.\<close>

definition GoogleSheetsClient_add_transaction ::
  "nat option \<Rightarrow> string \<Rightarrow> pydict \<Rightarrow> GoogleSheetsClient \<Rightarrow> (exc + int) \<times> GoogleSheetsClient" where
  "GoogleSheetsClient_add_transaction fault now_text data self =
     (case add_transaction_try fault now_text data self of
        Inl e \<Rightarrow> (Inl e, self)
      | Inr (new_id, self') \<Rightarrow> (Inr new_id, self'))"

subsection \<open>update_transaction\<close>

text \<open>\<open>for key, value in data.items(): if key in transaction: transaction[key] = value\<close>.\<close>

definition assign_existing :: "pydict \<Rightarrow> pydict \<Rightarrow> pydict" where
  "assign_existing transaction data =
     foldl (\<lambda>t kv. if map_of t (fst kv) \<noteq> None then AList.update (fst kv) (snd kv) t else t)
           transaction data"

text \<open>The offline loop over \<open>self.daily_transactions\<close>: the updated list, or \<open>None\<close> when no
  transaction has the identifier.\<close>

fun dummy_update :: "pydict list \<Rightarrow> pyval option \<Rightarrow> pydict \<Rightarrow> exc + pydict list option" where
  "dummy_update [] transaction_id data = Inr None"
| "dummy_update (t # ts) transaction_id data =
     bindE (dict_index t ''id'') (\<lambda>v.
       if Some v = transaction_id then Inr (Some (assign_existing t data # ts))
       else bindE (dummy_update ts transaction_id data) (\<lambda>r. Inr (map_option ((#) t) r)))"

text \<open>The row that \<open>update_transaction\<close> writes back over a row of at least 8 cells.\<close>

definition updated_row :: "pydict \<Rightarrow> string list \<Rightarrow> string list" where
  "updated_row data row_data =
     [row_data ! 0,
      row_data ! 1,
      str_val (dict_get data ''amount'' (PStr (row_data ! 2))),
      str_val (dict_get data ''method'' (PStr (row_data ! 3))),
      str_val (dict_get data ''commission'' (PStr (row_data ! 4))),
      str_val (dict_get data ''rate'' (PStr (row_data ! 5))),
      str_val (dict_get data ''status'' (PStr (row_data ! 6))),
      row_data ! 7,
      str_val (dict_get data ''hash'' (PStr (if length row_data > 8 then row_data ! 8 else ''''))),
      str_val (dict_get data ''chat_id''
                 (PStr (if length row_data > 9 then row_data ! 9 else '''')))]"

definition update_transaction_try ::
  "nat option \<Rightarrow> pyval option \<Rightarrow> pydict \<Rightarrow> GoogleSheetsClient \<Rightarrow>
   exc + (bool \<times> GoogleSheetsClient)" where
  "update_transaction_try fault transaction_id data self =
     (if dummy_mode self then
        bindE (dummy_update (daily_transactions self) transaction_id data) (\<lambda>r.
          case r of
            None \<Rightarrow> Inr (False, self)
          | Some ts \<Rightarrow> Inr (True, self\<lparr>daily_transactions := ts\<rparr>))
      else
        bindE (api fault 0 (col_values (sheet self))) (\<lambda>id_col.
          case find_row id_col (str_opt transaction_id) of
            None \<Rightarrow> Inr (False, self)
          | Some row_idx \<Rightarrow>
              bindE (api fault 1 (row_values (sheet self) row_idx)) (\<lambda>row_data.
                if length row_data < 8 then Inl IndexError
                else
                  bindE (api fault 2
                           (update_cells (sheet self) row_idx (updated_row data row_data)))
                    (\<lambda>sheet'.
                       Inr (True,
                            self\<lparr>sheet := sheet',
                                 cache_manager :=
                                   CacheManager_invalidate_transaction_cache (cache_manager self)
                                     transaction_id\<rparr>)))))"

text \<open>\<open>GoogleSheetsClient.update_transaction(transaction_id, data)\<close>: any exception is logged
  and answered with \<open>False\<close>.\<close>

definition GoogleSheetsClient_update_transaction ::
  "nat option \<Rightarrow> pyval option \<Rightarrow> pydict \<Rightarrow> GoogleSheetsClient \<Rightarrow>
   (exc + bool) \<times> GoogleSheetsClient" where
  "GoogleSheetsClient_update_transaction fault transaction_id data self =
     (case update_transaction_try fault transaction_id data self of
        Inl e \<Rightarrow> (Inr False, self)
      | Inr (ok, self') \<Rightarrow> (Inr ok, self'))"

subsection \<open>get_transaction and get_all_transactions\<close>

fun dummy_find :: "pydict list \<Rightarrow> int \<Rightarrow> exc + result" where
  "dummy_find [] transaction_id = Inr RNone"
| "dummy_find (t # ts) transaction_id =
     bindE (dict_index t ''id'') (\<lambda>v.
       if v = PInt transaction_id then Inr (RDict t) else dummy_find ts transaction_id)"

definition get_transaction_try ::
  "nat option \<Rightarrow> int \<Rightarrow> GoogleSheetsClient \<Rightarrow> exc + result" where
  "get_transaction_try fault transaction_id self =
     (if dummy_mode self then dummy_find (daily_transactions self) transaction_id
      else
        bindE (api fault 0 (col_values (sheet self))) (\<lambda>id_col.
          case find_row id_col (str_int transaction_id) of
            None \<Rightarrow> Inr RNone
          | Some row_idx \<Rightarrow>
              bindE (api fault 1 (row_values (sheet self) row_idx)) (\<lambda>row_data.
                if length row_data < 7 then Inl IndexError
                else (case py_int (row_data ! 0) of
                        None \<Rightarrow> Inl ValueError
                      | Some i \<Rightarrow>
                          Inr (RDict
                            [(''id'', PInt i),
                             (''datetime'', PStr (row_data ! 1)),
                             (''amount'', PStr (row_data ! 2)),
                             (''method'', PStr (row_data ! 3)),
                             (''commission'', PStr (row_data ! 4)),
                             (''rate'', PStr (row_data ! 5)),
                             (''status'', PStr (row_data ! 6)),
                             (''group'', PStr (if length row_data > 7 then row_data ! 7 else '''')),
                             (''hash'', PStr (if length row_data > 8 then row_data ! 8 else '''')),
                             (''chat_id'', PStr (if length row_data > 9 then row_data ! 9 else ''''))])))))"

text \<open>The undecorated \<open>get_transaction(transaction_id)\<close>: any exception is answered with
  \<open>None\<close>. It does not change the client.\<close>

definition get_transaction_func ::
  "nat option \<Rightarrow> int \<Rightarrow> GoogleSheetsClient \<Rightarrow> (exc + result) \<times> GoogleSheetsClient" where
  "get_transaction_func fault transaction_id self =
     (case get_transaction_try fault transaction_id self of
        Inl e \<Rightarrow> (Inr RNone, self)
      | Inr r \<Rightarrow> (Inr r, self))"

text \<open>The dictionary that \<open>get_all_transactions\<close> builds from a row of at least 7 cells.\<close>

definition row_to_transaction :: "string list \<Rightarrow> pydict" where
  "row_to_transaction row =
     [(''id'', PInt (if isdigit (row ! 0) then int (the (digits_nat (row ! 0) 0)) else 0)),
      (''datetime'', PStr (row ! 1)),
      (''amount'', PStr (row ! 2)),
      (''method'', PStr (row ! 3)),
      (''commission'', PStr (row ! 4)),
      (''rate'', PStr (row ! 5)),
      (''status'', PStr (row ! 6)),
      (''group'', PStr (if length row > 7 then row ! 7 else '''')),
      (''hash'', PStr (if length row > 8 then row ! 8 else '''')),
      (''chat_id'', PStr (if length row > 9 then row ! 9 else ''''))]"

text \<open>\<open>t["datetime"].startswith(date)\<close> in the offline store; a missing key raises
  \<open>KeyError\<close>, and a \<open>datetime\<close> that is a number has no \<open>startswith\<close>.\<close>

fun dummy_filter_date :: "pydict list \<Rightarrow> string \<Rightarrow> exc + pydict list" where
  "dummy_filter_date [] d = Inr []"
| "dummy_filter_date (t # ts) d =
     bindE (dict_index t ''datetime'') (\<lambda>v.
       case v of
         PInt i \<Rightarrow> Inl AttributeError
       | PStr s \<Rightarrow> bindE (dummy_filter_date ts d) (\<lambda>r. Inr (if prefix d s then t # r else r)))"

definition get_all_transactions_try ::
  "nat option \<Rightarrow> string option \<Rightarrow> GoogleSheetsClient \<Rightarrow> exc + result" where
  "get_all_transactions_try fault date_arg self =
     (if dummy_mode self then
        (if date_arg = None \<or> date_arg = Some [] then Inr (RList (daily_transactions self))
         else bindE (dummy_filter_date (daily_transactions self) (the date_arg)) (\<lambda>r. Inr (RList r)))
      else
        bindE (api fault 0 (sheet self)) (\<lambda>all_data.
          let data_rows = tl all_data;
              kept = filter (\<lambda>row. \<not> length row < 7 \<and>
                                  \<not> (date_arg \<noteq> None \<and> date_arg \<noteq> Some [] \<and>
                                     \<not> prefix (the date_arg) (row ! 1)))
                            data_rows
          in Inr (RList (map row_to_transaction kept))))"

text \<open>The undecorated \<open>get_all_transactions(date, force_refresh)\<close>.\<close>

definition get_all_transactions_func ::
  "nat option \<Rightarrow> string option \<Rightarrow> bool \<Rightarrow> GoogleSheetsClient \<Rightarrow>
   (exc + result) \<times> GoogleSheetsClient" where
  "get_all_transactions_func fault date_arg force_refresh self =
     (let self1 =
            (if force_refresh
             then self\<lparr>cache_manager :=
                         CacheManager_invalidate_pattern
                           (CacheManager_invalidate_pattern (cache_manager self)
                              ''get_all_transactions'')
                           ''get_transaction''\<rparr>
             else self)
      in case get_all_transactions_try fault date_arg self1 of
           Inl e \<Rightarrow> (Inr (RList []), self1)
         | Inr r \<Rightarrow> (Inr r, self1))"

text \<open>A store operation as the decorator sees it: the undecorated methods above never
  raise, so the decorator receives their value.\<close>

definition returned :: "(exc + result) \<times> GoogleSheetsClient \<Rightarrow> result \<times> GoogleSheetsClient" where
  "returned p = (case fst p of Inl e \<Rightarrow> RNone | Inr r \<Rightarrow> r, snd p)"

text \<open>The decorated methods. \<open>get_transaction\<close> is called with its identifier as a
  positional argument; \<open>get_all_transactions\<close> is called with keyword arguments
  (\<open>date=...\<close>, \<open>force_refresh=...\<close>), given as \<open>kwargs\<close>.\<close>

definition GoogleSheetsClient_get_transaction ::
  "bool \<Rightarrow> nat option \<Rightarrow> int \<Rightarrow> real \<Rightarrow> real \<Rightarrow> GoogleSheetsClient \<Rightarrow> result \<times> GoogleSheetsClient" where
  "GoogleSheetsClient_get_transaction DEBUG fault transaction_id t_get t_set self =
     cache_result DEBUG [Lit ''get_transaction:'', Field 0] ''get_transaction''
       (\<lambda>s. returned (get_transaction_func fault transaction_id s))
       [AInt transaction_id] [] t_get t_set self"

definition kw_date :: "(string \<times> pyarg) list \<Rightarrow> string option" where
  "kw_date kwargs = (case map_of kwargs ''date'' of Some (AStr d) \<Rightarrow> Some d | _ \<Rightarrow> None)"

definition kw_flag :: "(string \<times> pyarg) list \<Rightarrow> string \<Rightarrow> bool" where
  "kw_flag kwargs k = (case map_of kwargs k of Some v \<Rightarrow> truthy v | None \<Rightarrow> False)"

definition GoogleSheetsClient_get_all_transactions ::
  "bool \<Rightarrow> nat option \<Rightarrow> (string \<times> pyarg) list \<Rightarrow> real \<Rightarrow> real \<Rightarrow>
   GoogleSheetsClient \<Rightarrow> result \<times> GoogleSheetsClient" where
  "GoogleSheetsClient_get_all_transactions DEBUG fault kwargs t_get t_set self =
     cache_result DEBUG [Lit ''get_all_transactions:'', Field 0] ''get_all_transactions''
       (\<lambda>s. returned (get_all_transactions_func fault (kw_date kwargs)
                         (kw_flag kwargs ''force_refresh'') s))
       [] kwargs t_get t_set self"

subsection \<open>mark_transaction_paid\<close>

text \<open>Python's truth value of a returned result.\<close>

fun result_truthy :: "result \<Rightarrow> bool" where
  "result_truthy RNone = False"
| "result_truthy (RBool b) = b"
| "result_truthy (RFloat x) = (x \<noteq> 0)"
| "result_truthy (RDict d) = (d \<noteq> [])"
| "result_truthy (RList l) = (l \<noteq> [])"
| "result_truthy (RSettings s) =
     (date s \<noteq> None \<or> rate s \<noteq> None \<or> commission_percent s \<noteq> None \<or> commission s \<noteq> None)"
| "result_truthy (RStats s) = True"

text \<open>\<open>GoogleSheetsClient.mark_transaction_paid(transaction_id, transaction_hash)\<close>;
  \<open>f_get\<close> and \<open>f_upd\<close> are the faults of the two store operations it calls.\<close>

definition GoogleSheetsClient_mark_transaction_paid ::
  "bool \<Rightarrow> nat option \<Rightarrow> nat option \<Rightarrow> int \<Rightarrow> string \<Rightarrow> real \<Rightarrow> real \<Rightarrow>
   GoogleSheetsClient \<Rightarrow> (exc + bool) \<times> GoogleSheetsClient" where
  "GoogleSheetsClient_mark_transaction_paid DEBUG f_get f_upd transaction_id transaction_hash
       t_get t_set self =
     (let (transaction, self1) =
            GoogleSheetsClient_get_transaction DEBUG f_get transaction_id t_get t_set self
      in if \<not> result_truthy transaction then (Inr False, self1)
         else
           let (res, self2) =
                 GoogleSheetsClient_update_transaction f_upd (Some (PInt transaction_id))
                   [(''status'', PStr STATUS_PAID), (''hash'', PStr transaction_hash)] self1
           in if res = Inr True
              then (res, self2\<lparr>cache_manager :=
                                 CacheManager_invalidate_pattern (cache_manager self2)
                                   ''get_daily_statistics''\<rparr>)
              else (res, self2))"

section \<open>sheets.py: day status and day settings\<close>

text \<open>The Russian texts of the auxiliary worksheets: \<open>DAY_OPEN\<close> is the status text
  "open"; the header rows are "date", "status", "time", \<open>chat_id\<close> and "date", "rate",
  "commission percent", \<open>chat_id\<close>.\<close>

definition DAY_OPEN :: string where
  "DAY_OPEN = [CHR 0xCE, CHR 0xF2, CHR 0xEA, CHR 0xF0, CHR 0xFB, CHR 0xF2]"

definition DayStatus_header :: "string list" where
  "DayStatus_header =
     [[CHR 0xC4, CHR 0xE0, CHR 0xF2, CHR 0xE0],
      [CHR 0xD1, CHR 0xF2, CHR 0xE0, CHR 0xF2, CHR 0xF3, CHR 0xF1],
      [CHR 0xC2, CHR 0xF0, CHR 0xE5, CHR 0xEC, CHR 0xFF],
      ''chat_id'']"

definition DaySettings_header :: "string list" where
  "DaySettings_header =
     [[CHR 0xC4, CHR 0xE0, CHR 0xF2, CHR 0xE0],
      [CHR 0xCA, CHR 0xF3, CHR 0xF0, CHR 0xF1],
      [CHR 0xCF, CHR 0xF0, CHR 0xEE, CHR 0xF6, CHR 0xE5, CHR 0xED, CHR 0xF2, CHR '' '',
       CHR 0xEA, CHR 0xEE, CHR 0xEC, CHR 0xE8, CHR 0xF1, CHR 0xF1, CHR 0xE8, CHR 0xE8],
      ''chat_id'']"

text \<open>The sort key \<open>row[i] if len(row) > i else ""\<close>.\<close>

definition cell_or_empty :: "nat \<Rightarrow> string list \<Rightarrow> string" where
  "cell_or_empty i row = (if length row > i then row ! i else [])"

text \<open>
  The body of the \<open>try\<close> block of \<open>is_day_open(chat_id)\<close>, with the state it leaves.
  In live mode the remote calls are, in order: \<open>open_by_key\<close> (0) and \<open>worksheet\<close> (1);
  when the worksheet exists \<open>get_all_values\<close> (2); when it does not, \<open>open_by_key\<close> (2),
  \<open>add_worksheet\<close> (3) and \<open>update\<close> of the header row (4). \<open>today\<close> is the formatted
  current date.
\<close>

definition is_day_open_try ::
  "nat option \<Rightarrow> int option \<Rightarrow> string \<Rightarrow> GoogleSheetsClient \<Rightarrow>
   (exc + result) \<times> GoogleSheetsClient" where
  "is_day_open_try fault chat_id today self =
     (if dummy_mode self then (Inr (RBool (day_open self)), self)
      else if fault = Some 0 \<or> fault = Some 1 then (Inl BackendError, self)
      else
        case DayStatus self of
          None \<Rightarrow>
            if fault = Some 2 \<or> fault = Some 3 then (Inl BackendError, self)
            else if fault = Some 4 then (Inl BackendError, self\<lparr>DayStatus := Some []\<rparr>)
            else (Inr (RBool False), self\<lparr>DayStatus := Some [DayStatus_header]\<rparr>)
        | Some all_data \<Rightarrow>
            if fault = Some 2 then (Inl BackendError, self)
            else if length all_data \<le> 1 then (Inr (RBool False), self)
            else
              let data_rows = tl all_data in
              case chat_id of
                Some c \<Rightarrow>
                  let filtered_data =
                        filter (\<lambda>row. length row > 3 \<and> row ! 3 = str_int c) data_rows
                  in if filtered_data = [] then (Inr (RBool False), self)
                     else
                       let latest_status = last (sort_key (cell_or_empty 2) filtered_data)
                       in (Inr (RBool (latest_status ! 0 = today \<and> latest_status ! 1 = DAY_OPEN)),
                           self)
              | None \<Rightarrow>
                  if list_ex (\<lambda>row. row = []) data_rows then (Inl IndexError, self)
                  else
                    let today_status = filter (\<lambda>row. row ! 0 = today) data_rows in
                    if today_status = [] then (Inr (RBool False), self)
                    else
                      let global_status =
                            filter (\<lambda>row. length row \<le> 3 \<or> row ! 3 = []) today_status
                      in if global_status \<noteq> [] then
                           let latest_global = last (sort_key (cell_or_empty 2) global_status)
                           in if length latest_global < 2 then (Inl IndexError, self)
                              else (Inr (RBool (latest_global ! 1 = DAY_OPEN)), self)
                         else
                           (Inr (RBool (list_ex (\<lambda>row. row ! 1 = DAY_OPEN) today_status)), self))"

text \<open>The undecorated \<open>is_day_open\<close>: any exception is answered with \<open>False\<close>.\<close>

definition is_day_open_func ::
  "nat option \<Rightarrow> int option \<Rightarrow> string \<Rightarrow> GoogleSheetsClient \<Rightarrow>
   (exc + result) \<times> GoogleSheetsClient" where
  "is_day_open_func fault chat_id today self =
     (case is_day_open_try fault chat_id today self of
        (Inl e, self') \<Rightarrow> (Inr (RBool False), self')
      | (Inr r, self') \<Rightarrow> (Inr r, self'))"

text \<open>The chat identifier of a call, passed as the first positional argument or as the
  keyword argument \<open>chat_id\<close>; absent or \<open>None\<close> otherwise.\<close>

definition arg_chat_id :: "pyarg list \<Rightarrow> (string \<times> pyarg) list \<Rightarrow> int option" where
  "arg_chat_id args kwargs =
     (case args of
        AInt c # rest \<Rightarrow> Some c
      | a # rest \<Rightarrow> None
      | [] \<Rightarrow> (case map_of kwargs ''chat_id'' of Some (AInt c) \<Rightarrow> Some c | _ \<Rightarrow> None))"

text \<open>The decorated \<open>is_day_open\<close>.\<close>

definition GoogleSheetsClient_is_day_open ::
  "bool \<Rightarrow> nat option \<Rightarrow> pyarg list \<Rightarrow> (string \<times> pyarg) list \<Rightarrow> string \<Rightarrow> real \<Rightarrow> real \<Rightarrow>
   GoogleSheetsClient \<Rightarrow> result \<times> GoogleSheetsClient" where
  "GoogleSheetsClient_is_day_open DEBUG fault args kwargs today t_get t_set self =
     cache_result DEBUG [Lit ''is_day_open:'', Field 0] ''is_day_open''
       (\<lambda>s. returned (is_day_open_func fault (arg_chat_id args kwargs) today s))
       args kwargs t_get t_set self"

text \<open>
  \<open>float(s)\<close>: surrounding whitespace, an optional sign, then digits with an optional
  point (digits are needed on one side of it at least) and an optional exponent
  (\<open>e\<close> or \<open>E\<close>, an optional sign, digits); single underscores may stand between two
  digits. \<open>None\<close> is \<open>ValueError\<close>. The value is the real number that the numeral
  denotes: the source gets the nearest binary floating-point number, and an infinity
  beyond the range of those. The texts \<open>inf\<close>, \<open>infinity\<close> and \<open>nan\<close>, which \<open>float\<close> also
  takes, denote no real number and are outside this model; they are rejected here.
\<close>

definition mantissa :: "string \<Rightarrow> real option" where
  "mantissa m =
     (let ip = takeWhile (\<lambda>c. c \<noteq> CHR ''.'') m;
          rest = dropWhile (\<lambda>c. c \<noteq> CHR ''.'') m;
          fp = tl rest
      in if rest = [] \<or> fp = [] then map_option real (group_nat ip)
         else
           (case ungroup fp of
              None \<Rightarrow> None
            | Some ds \<Rightarrow>
                (case (if ip = [] then Some 0 else group_nat ip, digits_nat ds 0) of
                   (Some a, Some b) \<Rightarrow> Some (real a + real b / 10 ^ length ds)
                 | _ \<Rightarrow> None)))"

definition float_unsigned :: "string \<Rightarrow> real option" where
  "float_unsigned s =
     (let m = takeWhile (\<lambda>c. c \<noteq> CHR ''e'' \<and> c \<noteq> CHR ''E'') s;
          rest = dropWhile (\<lambda>c. c \<noteq> CHR ''e'' \<and> c \<noteq> CHR ''E'') s
      in if rest = [] then mantissa m
         else
           (case (mantissa m, signed_group (tl rest)) of
              (Some x, Some k) \<Rightarrow>
                Some (if 0 \<le> k then x * 10 ^ nat k else x / 10 ^ nat (- k))
            | _ \<Rightarrow> None))"

definition py_float :: "string \<Rightarrow> real option" where
  "py_float s =
     (case strip s of
        [] \<Rightarrow> None
      | c # cs \<Rightarrow>
          if c = CHR ''-'' then map_option uminus (float_unsigned cs)
          else if c = CHR ''+'' then float_unsigned cs
          else float_unsigned (c # cs))"

text \<open>
  The body of the \<open>try\<close> block of \<open>get_day_settings(chat_id)\<close>. The remote calls are
  \<open>open_by_key\<close> (0), \<open>worksheet\<close> (1) and, when the worksheet exists, \<open>get_all_values\<close> (2);
  when it does not, \<open>open_by_key\<close> (2), \<open>add_worksheet\<close> (3), \<open>update\<close> of the header row
  (4), whose failure is answered with \<open>None\<close> at once, and then \<open>get_all_values\<close> (5).
\<close>

definition settings_of_rows :: "int option \<Rightarrow> string \<Rightarrow> string list list \<Rightarrow> result" where
  "settings_of_rows chat_id today all_data =
     (if length all_data \<le> 1 then RNone
      else
        let filtered_data =
              (case chat_id of
                 Some c \<Rightarrow> filter (\<lambda>row. length row > 3 \<and> row ! 3 = str_int c) (tl all_data)
               | None \<Rightarrow> tl all_data)
        in if filtered_data = [] then RNone
           else
             let latest_settings = last (sort_key (cell_or_empty 0) filtered_data);
                 current_date = (if length latest_settings > 0 then latest_settings ! 0 else today);
                 r = (if length latest_settings > 1 \<and> latest_settings ! 1 \<noteq> []
                      then py_float (latest_settings ! 1) else Some 0);
                 c = (if length latest_settings > 2 \<and> latest_settings ! 2 \<noteq> []
                      then py_float (latest_settings ! 2) else Some 0)
             in RSettings
                  \<lparr>date = Some current_date,
                   rate = Some (if r = None \<or> c = None then 0 else the r),
                   commission_percent = Some (if r = None \<or> c = None then 0 else the c),
                   commission = None\<rparr>)"

definition get_day_settings_try ::
  "nat option \<Rightarrow> int option \<Rightarrow> string \<Rightarrow> GoogleSheetsClient \<Rightarrow>
   (exc + result) \<times> GoogleSheetsClient" where
  "get_day_settings_try fault chat_id today self =
     (if dummy_mode self
      then (Inr (case day_settings self of None \<Rightarrow> RNone | Some d \<Rightarrow> RSettings d), self)
      else if fault = Some 0 \<or> fault = Some 1 then (Inl BackendError, self)
      else
        case DaySettings self of
          None \<Rightarrow>
            if fault = Some 2 \<or> fault = Some 3 then (Inr RNone, self)
            else if fault = Some 4 then (Inr RNone, self\<lparr>DaySettings := Some []\<rparr>)
            else if fault = Some 5
            then (Inl BackendError, self\<lparr>DaySettings := Some [DaySettings_header]\<rparr>)
            else (Inr (settings_of_rows chat_id today [DaySettings_header]),
                  self\<lparr>DaySettings := Some [DaySettings_header]\<rparr>)
        | Some all_data \<Rightarrow>
            if fault = Some 2 then (Inl BackendError, self)
            else (Inr (settings_of_rows chat_id today all_data), self))"

text \<open>The undecorated and the decorated \<open>get_day_settings\<close>: any exception is answered
  with \<open>None\<close>.\<close>

definition get_day_settings_func ::
  "nat option \<Rightarrow> int option \<Rightarrow> string \<Rightarrow> GoogleSheetsClient \<Rightarrow>
   (exc + result) \<times> GoogleSheetsClient" where
  "get_day_settings_func fault chat_id today self =
     (case get_day_settings_try fault chat_id today self of
        (Inl e, self') \<Rightarrow> (Inr RNone, self')
      | (Inr r, self') \<Rightarrow> (Inr r, self'))"

definition GoogleSheetsClient_get_day_settings ::
  "bool \<Rightarrow> nat option \<Rightarrow> pyarg list \<Rightarrow> (string \<times> pyarg) list \<Rightarrow> string \<Rightarrow> real \<Rightarrow> real \<Rightarrow>
   GoogleSheetsClient \<Rightarrow> result \<times> GoogleSheetsClient" where
  "GoogleSheetsClient_get_day_settings DEBUG fault args kwargs today t_get t_set self =
     cache_result DEBUG [Lit ''get_day_settings:'', Field 0] ''get_day_settings''
       (\<lambda>s. returned (get_day_settings_func fault (arg_chat_id args kwargs) today s))
       args kwargs t_get t_set self"

subsection \<open>set_day_status and save_day_settings\<close>

text \<open>The status text "closed".\<close>

definition DAY_CLOSED :: string where
  "DAY_CLOSED = [CHR 0xC7, CHR 0xE0, CHR 0xEA, CHR 0xF0, CHR 0xFB, CHR 0xF2]"

text \<open>
  The body of the \<open>try\<close> block of \<open>set_day_status(is_open, chat_id)\<close>, with the state it
  leaves; \<open>today\<close> and \<open>now_time\<close> are the formatted current date and time. In live mode
  the remote calls are \<open>open_by_key\<close> (0) and \<open>worksheet\<close> (1); when the worksheet exists
  \<open>append_row\<close> (2); when it does not, \<open>open_by_key\<close> (2), \<open>add_worksheet\<close> (3), \<open>update\<close>
  of the header row (4) and \<open>append_row\<close> (5).
\<close>

definition set_day_status_try ::
  "nat option \<Rightarrow> string \<Rightarrow> string \<Rightarrow> bool \<Rightarrow> int option \<Rightarrow> GoogleSheetsClient \<Rightarrow>
   (exc + bool) \<times> GoogleSheetsClient" where
  "set_day_status_try fault today now_time is_open chat_id self =
     (if dummy_mode self
      then (Inr True,
            self\<lparr>day_open := is_open,
                 cache_manager :=
                   CacheManager_invalidate_pattern (cache_manager self) ''is_day_open''\<rparr>)
      else if fault = Some 0 \<or> fault = Some 1 then (Inl BackendError, self)
      else
        let status = (if is_open then DAY_OPEN else DAY_CLOSED);
            chat_id_str = (case chat_id of None \<Rightarrow> [] | Some c \<Rightarrow> str_int c);
            row = [today, status, now_time, chat_id_str];
            cm = (case chat_id of
                    Some c \<Rightarrow> CacheManager_invalidate (cache_manager self)
                               (Some (''is_day_open:'' @ str_int c))
                  | None \<Rightarrow> CacheManager_invalidate_pattern (cache_manager self) ''is_day_open'')
        in case DayStatus self of
             None \<Rightarrow>
               if fault = Some 2 \<or> fault = Some 3 then (Inl BackendError, self)
               else if fault = Some 4 then (Inl BackendError, self\<lparr>DayStatus := Some []\<rparr>)
               else if fault = Some 5
               then (Inl BackendError, self\<lparr>DayStatus := Some [DayStatus_header]\<rparr>)
               else (Inr True,
                     self\<lparr>DayStatus := Some [DayStatus_header, row], cache_manager := cm\<rparr>)
           | Some all_data \<Rightarrow>
               if fault = Some 2 then (Inl BackendError, self)
               else (Inr True,
                     self\<lparr>DayStatus := Some (all_data @ [row]), cache_manager := cm\<rparr>))"

text \<open>\<open>GoogleSheetsClient.set_day_status(is_open, chat_id)\<close>: any exception is answered
  with \<open>False\<close>.\<close>

definition GoogleSheetsClient_set_day_status ::
  "nat option \<Rightarrow> string \<Rightarrow> string \<Rightarrow> bool \<Rightarrow> int option \<Rightarrow> GoogleSheetsClient \<Rightarrow>
   (exc + bool) \<times> GoogleSheetsClient" where
  "GoogleSheetsClient_set_day_status fault today now_time is_open chat_id self =
     (case set_day_status_try fault today now_time is_open chat_id self of
        (Inl e, self') \<Rightarrow> (Inr False, self')
      | (Inr ok, self') \<Rightarrow> (Inr ok, self'))"

text \<open>
  The body of the \<open>try\<close> block of \<open>save_day_settings(rate, commission_percent, chat_id)\<close>.
  The offline store keeps the two numbers; the worksheet keeps the texts that it shows for
  them, \<open>rate_text\<close> and \<open>commission_text\<close>. In live mode the remote calls are
  \<open>open_by_key\<close> (0) and \<open>worksheet\<close> (1); when the worksheet exists \<open>get_all_values\<close> (2)
  and the \<open>update\<close> of the chat's row or the \<open>append_row\<close> (3); when it does not,
  \<open>open_by_key\<close> (2), \<open>add_worksheet\<close> (3), \<open>update\<close> of the header row (4),
  \<open>get_all_values\<close> (5) and \<open>append_row\<close> (6).
\<close>

definition save_day_settings_try ::
  "nat option \<Rightarrow> string \<Rightarrow> real \<Rightarrow> real \<Rightarrow> string \<Rightarrow> string \<Rightarrow> int option \<Rightarrow>
   GoogleSheetsClient \<Rightarrow> (exc + bool) \<times> GoogleSheetsClient" where
  "save_day_settings_try fault today rate_arg commission_arg rate_text commission_text chat_id self =
     (if dummy_mode self
      then (Inr True,
            self\<lparr>day_settings := Some \<lparr>date = Some today, rate = Some rate_arg,
                                       commission_percent = Some commission_arg,
                                       commission = None\<rparr>,
                 cache_manager :=
                   CacheManager_invalidate_pattern
                     (CacheManager_invalidate_pattern (cache_manager self) ''get_day_settings'')
                     ''get_current_rate''\<rparr>)
      else if fault = Some 0 \<or> fault = Some 1 then (Inl BackendError, self)
      else
        let chat_id_str = (case chat_id of None \<Rightarrow> [] | Some c \<Rightarrow> str_int c);
            cells = [today, rate_text, commission_text, chat_id_str];
            cm = (case chat_id of
                    Some c \<Rightarrow>
                      CacheManager_invalidate
                        (CacheManager_invalidate (cache_manager self)
                           (Some (''get_day_settings:'' @ str_int c)))
                        (Some (''get_current_rate:'' @ str_int c))
                  | None \<Rightarrow>
                      CacheManager_invalidate_pattern
                        (CacheManager_invalidate_pattern (cache_manager self) ''get_day_settings'')
                        ''get_current_rate'')
        in case DaySettings self of
             None \<Rightarrow>
               if fault = Some 2 \<or> fault = Some 3 then (Inl BackendError, self)
               else if fault = Some 4 then (Inl BackendError, self\<lparr>DaySettings := Some []\<rparr>)
               else if fault = Some 5 \<or> fault = Some 6
               then (Inl BackendError, self\<lparr>DaySettings := Some [DaySettings_header]\<rparr>)
               else (Inr True,
                     self\<lparr>DaySettings := Some [DaySettings_header, cells], cache_manager := cm\<rparr>)
           | Some all_data \<Rightarrow>
               if fault = Some 2 \<or> fault = Some 3 then (Inl BackendError, self)
               else
                 let data_rows = tl all_data;
                     before = takeWhile (\<lambda>row. \<not> (length row > 3 \<and> row ! 3 = chat_id_str))
                                        data_rows
                 in if length before < length data_rows
                    then (Inr True,
                          self\<lparr>DaySettings :=
                                 Some (all_data[Suc (length before) :=
                                                  cells @ drop 4 (data_rows ! length before)]),
                               cache_manager := cm\<rparr>)
                    else (Inr True,
                          self\<lparr>DaySettings := Some (all_data @ [cells]), cache_manager := cm\<rparr>))"

text \<open>\<open>GoogleSheetsClient.save_day_settings(rate, commission_percent, chat_id)\<close>: any
  exception is answered with \<open>False\<close>.\<close>

definition GoogleSheetsClient_save_day_settings ::
  "nat option \<Rightarrow> string \<Rightarrow> real \<Rightarrow> real \<Rightarrow> string \<Rightarrow> string \<Rightarrow> int option \<Rightarrow>
   GoogleSheetsClient \<Rightarrow> (exc + bool) \<times> GoogleSheetsClient" where
  "GoogleSheetsClient_save_day_settings fault today rate_arg commission_arg rate_text
       commission_text chat_id self =
     (case save_day_settings_try fault today rate_arg commission_arg rate_text commission_text
             chat_id self of
        (Inl e, self') \<Rightarrow> (Inr False, self')
      | (Inr ok, self') \<Rightarrow> (Inr ok, self'))"

section \<open>sheets.py: daily statistics\<close>

text \<open>
  \<open>s.lower()\<close> on ASCII and Cyrillic letters, \<open>s.replace(old, "")\<close>, and Python's
  \<open>round(x, 2)\<close>. Amounts and rates are real numbers here and \<open>round2\<close> rounds the exact
  value to the nearest hundredth, a tie going to the even neighbour. The source computes
  with binary floating point and rounds the binary number: the two agree unless the exact
  value lies within the floating-point error of the middle between two hundredths (the
  source rounds \<open>2.675\<close>, stored as a binary number just below it, to \<open>2.67\<close>, and \<open>round2\<close>
  gives \<open>2.68\<close>). The values in the examples below are whole numbers.
\<close>

definition lower_char :: "char \<Rightarrow> char" where
  "lower_char c =
     (case map_of
        (zip (''ABCDEFGHIJKLMNOPQRSTUVWXYZ'' @
              [CHR 0xC0, CHR 0xC1, CHR 0xC2, CHR 0xC3, CHR 0xC4, CHR 0xC5, CHR 0xC6, CHR 0xC7,
               CHR 0xC8, CHR 0xC9, CHR 0xCA, CHR 0xCB, CHR 0xCC, CHR 0xCD, CHR 0xCE, CHR 0xCF,
               CHR 0xD0, CHR 0xD1, CHR 0xD2, CHR 0xD3, CHR 0xD4, CHR 0xD5, CHR 0xD6, CHR 0xD7,
               CHR 0xD8, CHR 0xD9, CHR 0xDA, CHR 0xDB, CHR 0xDC, CHR 0xDD, CHR 0xDE, CHR 0xDF])
             (''abcdefghijklmnopqrstuvwxyz'' @
              [CHR 0xE0, CHR 0xE1, CHR 0xE2, CHR 0xE3, CHR 0xE4, CHR 0xE5, CHR 0xE6, CHR 0xE7,
               CHR 0xE8, CHR 0xE9, CHR 0xEA, CHR 0xEB, CHR 0xEC, CHR 0xED, CHR 0xEE, CHR 0xEF,
               CHR 0xF0, CHR 0xF1, CHR 0xF2, CHR 0xF3, CHR 0xF4, CHR 0xF5, CHR 0xF6, CHR 0xF7,
               CHR 0xF8, CHR 0xF9, CHR 0xFA, CHR 0xFB, CHR 0xFC, CHR 0xFD, CHR 0xFE, CHR 0xFF]))
        c of
        Some l \<Rightarrow> l
      | None \<Rightarrow> c)"

definition lower :: "string \<Rightarrow> string" where
  "lower s = map lower_char s"

function remove_all :: "string \<Rightarrow> string \<Rightarrow> string" where
  "remove_all old s =
     (if old = [] \<or> s = [] then s
      else if prefix old s then remove_all old (drop (length old) s)
      else hd s # remove_all old (tl s))"
  by pat_completeness auto
termination
  by (relation "measure (\<lambda>p. length (snd p))") auto

declare remove_all.simps [simp del]

definition py_round :: "real \<Rightarrow> int" where
  "py_round x =
     (let f = \<lfloor>x\<rfloor>; d = x - of_int f
      in if d < 1 / 2 then f else if 1 / 2 < d then f + 1 else if even f then f else f + 1)"

definition round2 :: "real \<Rightarrow> real" where
  "round2 x = of_int (py_round (x * 100)) / 100"

text \<open>Truth value and \<open>float\<close> of a dictionary value.\<close>

fun truthy_val :: "pyval \<Rightarrow> bool" where
  "truthy_val (PInt i) = (i \<noteq> 0)"
| "truthy_val (PStr s) = (s \<noteq> [])"

fun float_val :: "pyval \<Rightarrow> exc + real" where
  "float_val (PInt i) = Inr (of_int i)"
| "float_val (PStr s) = (case py_float s of None \<Rightarrow> Inl ValueError | Some r \<Rightarrow> Inr r)"

text \<open>The historical group labels that the statistics and the migration know: the group
  of chat \<open>-4605781130\<close>, its distinguishing personal name, and the test group of chat
  \<open>-4608567148\<close>; and the lower-case status text "paid out".\<close>

definition GROUP_E :: string where
  "GROUP_E = [CHR ''E'', CHR '','', CHR '' '', CHR 0xC8, CHR 0xEB, CHR 0xFC, CHR 0xFF, CHR '' '',
              CHR 0xCA, CHR 0xF3, CHR 0xE7, CHR 0xED, CHR 0xE5, CHR 0xF6, CHR 0xEE, CHR 0xE2,
              CHR '' '', CHR 0xE8, CHR '' '', CHR ''X'', CHR ''c'', CHR ''h'', CHR ''a'', CHR ''n'',
              CHR ''g'', CHR ''e'', CHR ''B'', CHR ''o'', CHR ''t'']"

definition NAME_IN_GROUP_E :: string where
  "NAME_IN_GROUP_E = [CHR 0xC8, CHR 0xEB, CHR 0xFC, CHR 0xFF, CHR '' '', CHR 0xCA, CHR 0xF3,
                      CHR 0xE7, CHR 0xED, CHR 0xE5, CHR 0xF6, CHR 0xEE, CHR 0xE2]"

definition GROUP_TEST123 :: string where
  "GROUP_TEST123 = [CHR 0xD2, CHR 0xE5, CHR 0xF1, CHR 0xF2, CHR ''1'', CHR ''2'', CHR ''3'']"

definition paid_lower :: string where
  "paid_lower = [CHR 0xE2, CHR 0xFB, CHR 0xEF, CHR 0xEB, CHR 0xE0, CHR 0xF7, CHR 0xE5, CHR 0xED,
                 CHR 0xEE]"

text \<open>
  One round of the loop that filters the day's transactions by chat: whether the
  transaction is kept, and the transaction after the round (a match by group label writes
  the chat identifier into the dictionary).
\<close>

definition filter_step :: "string \<Rightarrow> pydict \<Rightarrow> exc + (bool \<times> pydict)" where
  "filter_step str_chat_id t =
     (if str_val (dict_get t ''chat_id'' (PStr '''')) = str_chat_id then Inr (True, t)
      else if str_val (dict_get t ''group'' (PStr '''')) = str_chat_id
      then Inr (True, AList.update ''chat_id'' (PStr str_chat_id) t)
      else
        case dict_get t ''group'' (PStr '''') of
          PInt g \<Rightarrow> if g \<noteq> 0 then Inl AttributeError else Inr (False, t)
        | PStr group_field \<Rightarrow>
            if group_field \<noteq> [] \<and> prefix ''E, '' group_field
               \<and> (contains NAME_IN_GROUP_E group_field \<or> contains ''XchangeBot'' group_field)
               \<and> str_chat_id = ''-4605781130''
            then Inr (True, AList.update ''chat_id'' (PStr str_chat_id) t)
            else if group_field = GROUP_TEST123 \<and> str_chat_id = ''-4608567148''
            then Inr (True, AList.update ''chat_id'' (PStr str_chat_id) t)
            else Inr (False, t))"

text \<open>The whole loop: the transactions as the loop leaves them, the filtered list, and
  the exception that stopped the loop, if any.\<close>

fun filter_loop :: "string \<Rightarrow> pydict list \<Rightarrow> pydict list \<times> pydict list \<times> exc option" where
  "filter_loop str_chat_id [] = ([], [], None)"
| "filter_loop str_chat_id (t # ts) =
     (case filter_step str_chat_id t of
        Inl e \<Rightarrow> (t # ts, [], Some e)
      | Inr (keep, t') \<Rightarrow>
          (case filter_loop str_chat_id ts of
             (ts', filtered, err) \<Rightarrow> (t' # ts', if keep then t' # filtered else filtered, err)))"

text \<open>\<open>sum(float(t['amount']) for t in transactions if t['amount'])\<close>.\<close>

fun sum_amounts :: "pydict list \<Rightarrow> exc + real" where
  "sum_amounts [] = Inr 0"
| "sum_amounts (t # ts) =
     bindE (dict_index t ''amount'') (\<lambda>a.
     bindE (if truthy_val a then float_val a else Inr 0) (\<lambda>x.
     bindE (sum_amounts ts) (\<lambda>r. Inr (x + r))))"

text \<open>\<open>t.get('status', '').lower() == paid_lower\<close>; a status that is a number has no
  \<open>lower\<close>.\<close>

fun is_paid :: "pydict \<Rightarrow> exc + bool" where
  "is_paid t =
     (case dict_get t ''status'' (PStr '''') of
        PInt i \<Rightarrow> Inl AttributeError
      | PStr s \<Rightarrow> Inr (lower s = paid_lower))"

fun paid_flags :: "pydict list \<Rightarrow> exc + bool list" where
  "paid_flags [] = Inr []"
| "paid_flags (t # ts) = bindE (is_paid t) (\<lambda>b. bindE (paid_flags ts) (\<lambda>bs. Inr (b # bs)))"

text \<open>
  One round of the loop that sums the amount to pay: the summand of the transaction, or
  \<open>None\<close> when the round ends in a \<open>ValueError\<close> or \<open>TypeError\<close>, which the loop catches
  and skips; a missing \<open>amount\<close> key raises \<open>KeyError\<close>, which the loop does not catch.
\<close>

definition to_pay_step :: "real \<Rightarrow> pydict \<Rightarrow> exc + real option" where
  "to_pay_step current_commission tx =
     bindE (dict_index tx ''amount'') (\<lambda>a.
       case (if truthy_val a then float_val a else Inr 0) of
         Inl e \<Rightarrow> Inr None
       | Inr amount \<Rightarrow>
           let commission_str = dict_get tx ''commission'' (PStr '''');
               tx_commission =
                 (if truthy_val commission_str then
                    (case commission_str of
                       PInt i \<Rightarrow> Some (of_int i)
                     | PStr s \<Rightarrow>
                         if contains ''%'' s then py_float (strip (remove_all ''%'' s))
                         else (case py_float s of
                                 Some r \<Rightarrow> Some r
                               | None \<Rightarrow> Some current_commission))
                  else Some current_commission)
           in Inr (map_option (\<lambda>c. amount * (1 - c / 100)) tx_commission))"

fun to_pay_sum :: "real \<Rightarrow> pydict list \<Rightarrow> exc + real" where
  "to_pay_sum current_commission [] = Inr 0"
| "to_pay_sum current_commission (tx # txs) =
     bindE (to_pay_step current_commission tx) (\<lambda>x.
     bindE (to_pay_sum current_commission txs) (\<lambda>r.
       Inr ((case x of None \<Rightarrow> 0 | Some v \<Rightarrow> v) + r)))"

text \<open>The rates and the commissions that parse, for the averages.\<close>

definition rate_of :: "pydict \<Rightarrow> real option" where
  "rate_of t =
     (case dict_get t ''rate'' (PStr '''') of
        PInt i \<Rightarrow> if i \<noteq> 0 then Some (of_int i) else None
      | PStr s \<Rightarrow>
          if s \<noteq> [] then py_float (strip (remove_all ''USDT'' (remove_all [CHR 0x22] s)))
          else None)"

definition commission_of :: "pydict \<Rightarrow> real option" where
  "commission_of t =
     (case dict_get t ''commission'' (PStr '''') of
        PInt i \<Rightarrow> if i \<noteq> 0 then Some (of_int i) else None
      | PStr s \<Rightarrow> if s \<noteq> [] then py_float (strip (remove_all ''%'' s)) else None)"

definition average :: "real list \<Rightarrow> real \<Rightarrow> real" where
  "average xs dflt = (if xs \<noteq> [] then sum_list xs / real (length xs) else dflt)"

text \<open>The count of payment methods (the default label is the Russian for "not given").\<close>

definition count_methods :: "pydict list \<Rightarrow> (pyval \<times> nat) list" where
  "count_methods transactions =
     foldl (\<lambda>m tx.
              let method = dict_get tx ''method''
                             (PStr [CHR 0xCD, CHR 0xE5, CHR '' '', CHR 0xF3, CHR 0xEA, CHR 0xE0,
                                    CHR 0xE7, CHR 0xE0, CHR 0xED])
              in AList.update method ((case map_of m method of None \<Rightarrow> 0 | Some n \<Rightarrow> n) + 1) m)
           [] transactions"

text \<open>The statistics of a non-empty list of transactions, given what \<open>get_day_settings\<close>
  returned.\<close>

definition compute_statistics :: "string \<Rightarrow> result \<Rightarrow> pydict list \<Rightarrow> exc + stats" where
  "compute_statistics current_date day_settings_result transactions =
     bindE (case day_settings_result of
              RNone \<Rightarrow> Inr (0, 0)
            | RSettings d \<Rightarrow>
                Inr (if result_truthy (RSettings d)
                     then (case rate d of None \<Rightarrow> 0 | Some r \<Rightarrow> r,
                           case commission_percent d of None \<Rightarrow> 0 | Some c \<Rightarrow> c)
                     else (0, 0))
            | _ \<Rightarrow> Inl AttributeError) (\<lambda>current.
     let current_rate = fst current; current_commission = snd current in
     bindE (sum_amounts transactions) (\<lambda>total.
     bindE (paid_flags transactions) (\<lambda>flags.
     let paid_transactions = map snd (filter fst (zip flags transactions));
         unpaid_transactions = map snd (filter (\<lambda>p. \<not> fst p) (zip flags transactions)) in
     bindE (sum_amounts paid_transactions) (\<lambda>paid.
     bindE (sum_amounts unpaid_transactions) (\<lambda>awaiting.
     bindE (to_pay_sum current_commission unpaid_transactions) (\<lambda>to_pay.
     let rates = map the (filter (\<lambda>x. x \<noteq> None) (map rate_of transactions));
         commissions = map the (filter (\<lambda>x. x \<noteq> None) (map commission_of transactions));
         avg_r = average rates current_rate;
         avg_c = average commissions current_commission;
         usdt_rate = (if current_rate > 0 then current_rate
                      else if avg_r > 0 then avg_r else 90)
     in Inr \<lparr>stats_date = Some current_date,
             transactions_count = length transactions,
             total_amount = round2 total,
             awaiting_amount = round2 awaiting,
             to_pay_amount = round2 to_pay,
             paid_amount = round2 paid,
             avg_rate = round2 avg_r,
             avg_commission = round2 avg_c,
             unpaid_usdt = (if usdt_rate > 0 then round2 (awaiting / usdt_rate) else 0),
             to_pay_usdt = (if usdt_rate > 0 then round2 (to_pay / usdt_rate) else 0),
             total_usdt = (if usdt_rate > 0 then round2 (total / usdt_rate) else 0),
             paid_usdt = (if usdt_rate > 0 then round2 (paid / usdt_rate) else 0),
             methods_count = Some (count_methods transactions)\<rparr>))))))"

text \<open>The all-zero statistics that \<open>GoogleSheetsClient.get_daily_statistics\<close> returns when
  no transaction matches.\<close>

definition empty_stats :: stats where
  "empty_stats =
     \<lparr>stats_date = None, transactions_count = 0, total_amount = 0, awaiting_amount = 0,
      to_pay_amount = 0, paid_amount = 0, avg_rate = 0, avg_commission = 0, unpaid_usdt = 0,
      to_pay_usdt = 0, total_usdt = 0, paid_usdt = 0, methods_count = Some []\<rparr>"

text \<open>The statistics that the \<open>except\<close> clause of \<open>get_daily_statistics\<close> returns.\<close>

definition error_stats :: "string \<Rightarrow> stats" where
  "error_stats current_date =
     \<lparr>stats_date = Some current_date, transactions_count = 0, total_amount = 0,
      awaiting_amount = 0, to_pay_amount = 0, paid_amount = 0, avg_rate = 0, avg_commission = 0,
      unpaid_usdt = 0, to_pay_usdt = 0, total_usdt = 0, paid_usdt = 0, methods_count = Some []\<rparr>"

text \<open>
  The filter loop writes into the dictionaries of the list that \<open>get_all_transactions\<close>
  returned. Those dictionaries are shared: in the offline store they are the elements of
  \<open>self.daily_transactions\<close> whose time starts with the date, and with the cache in use
  the list is the value stored under the key of the call.
\<close>

fun merge_back :: "string \<Rightarrow> pydict list \<Rightarrow> pydict list \<Rightarrow> pydict list" where
  "merge_back d [] new = []"
| "merge_back d (t # ts) new =
     (case dict_get t ''datetime'' (PStr '''') of
        PInt i \<Rightarrow> t # merge_back d ts new
      | PStr s \<Rightarrow>
          if prefix d s
          then (case new of [] \<Rightarrow> t # ts | n # ns \<Rightarrow> n # merge_back d ts ns)
          else t # merge_back d ts new)"

definition write_back :: "bool \<Rightarrow> string \<Rightarrow> pydict list \<Rightarrow> GoogleSheetsClient \<Rightarrow> GoogleSheetsClient" where
  "write_back DEBUG current_date transactions self =
     (if dummy_mode self
      then self\<lparr>daily_transactions := merge_back current_date (daily_transactions self) transactions\<rparr>
      else if DEBUG then self
      else self\<lparr>cache_manager := (cache_manager self)
                 \<lparr>cache := map (\<lambda>e. if fst e = ''get_all_transactions:date='' @ current_date
                                      then (fst e, fst (snd e), RList transactions) else e)
                               (cache (cache_manager self))\<rparr>\<rparr>)"

text \<open>
  The body of \<open>get_daily_statistics(chat_id, force_refresh)\<close>: the statistics it
  returns and the client it leaves. \<open>f_all\<close> and \<open>f_set\<close>
  are the faults of the calls of \<open>get_all_transactions\<close> and \<open>get_day_settings\<close>, and
  \<open>t1\<close>, \<open>t1'\<close>, \<open>t2\<close>, \<open>t2'\<close> the clock readings of their decorators. The cache of
  \<open>get_all_transactions\<close> holds lists; any other value there ends in the \<open>except\<close> clause.
\<close>

definition get_daily_statistics_body ::
  "bool \<Rightarrow> nat option \<Rightarrow> nat option \<Rightarrow> int option \<Rightarrow> bool \<Rightarrow> string \<Rightarrow> real \<Rightarrow> real \<Rightarrow> real \<Rightarrow> real \<Rightarrow>
   GoogleSheetsClient \<Rightarrow> stats \<times> GoogleSheetsClient" where
  "get_daily_statistics_body DEBUG f_all f_set chat_id force_refresh current_date t1 t1' t2 t2' self =
     (let cache_key = ''daily_stats_'' @ (case chat_id of None \<Rightarrow> ''None'' | Some c \<Rightarrow> str_int c)
                        @ ''_'' @ current_date;
          self0 = (if force_refresh \<and> map_of (client_cache self) cache_key \<noteq> None
                   then self\<lparr>client_cache := AList.delete cache_key (client_cache self),
                             cache_manager := CacheManager_invalidate_pattern (cache_manager self)
                                                ''get_daily_statistics''\<rparr>
                   else self)
      in case (if force_refresh then None else map_of (client_cache self0) cache_key) of
           Some cached \<Rightarrow> (cached, self0)
         | None \<Rightarrow>
             (case GoogleSheetsClient_get_all_transactions DEBUG f_all
                     [(''date'', AStr current_date)] t1 t1' self0 of
                (RList fetched, self1) \<Rightarrow>
                  (case (case chat_id of
                           None \<Rightarrow> (fetched, fetched, None)
                         | Some c \<Rightarrow> filter_loop (str_int c) fetched) of
                     (fetched', transactions, err) \<Rightarrow>
                       let self2 = (if chat_id = None then self1
                                    else write_back DEBUG current_date fetched' self1)
                       in if err \<noteq> None then (error_stats current_date, self2)
                          else if transactions = []
                          then (empty_stats,
                                self2\<lparr>client_cache :=
                                        AList.update cache_key empty_stats (client_cache self2)\<rparr>)
                          else
                            (case GoogleSheetsClient_get_day_settings DEBUG f_set []
                                    [(''chat_id'', case chat_id of None \<Rightarrow> ANone | Some c \<Rightarrow> AInt c)]
                                    current_date t2 t2' self2 of
                               (day_settings_result, self3) \<Rightarrow>
                                 (case compute_statistics current_date day_settings_result
                                         transactions of
                                    Inl e \<Rightarrow> (error_stats current_date, self3)
                                  | Inr r \<Rightarrow>
                                      (r,
                                       self3\<lparr>client_cache :=
                                               AList.update cache_key r (client_cache self3)\<rparr>))))
              | (other, self1) \<Rightarrow> (error_stats current_date, self1)))"

text \<open>As the decorator sees it: every path of \<open>get_daily_statistics\<close> returns a
  statistics dictionary.\<close>

definition get_daily_statistics_func ::
  "bool \<Rightarrow> nat option \<Rightarrow> nat option \<Rightarrow> int option \<Rightarrow> bool \<Rightarrow> string \<Rightarrow> real \<Rightarrow> real \<Rightarrow> real \<Rightarrow> real \<Rightarrow>
   GoogleSheetsClient \<Rightarrow> (exc + result) \<times> GoogleSheetsClient" where
  "get_daily_statistics_func DEBUG f_all f_set chat_id force_refresh current_date t1 t1' t2 t2' self =
     (Inr (RStats (fst (get_daily_statistics_body DEBUG f_all f_set chat_id force_refresh
                          current_date t1 t1' t2 t2' self))),
      snd (get_daily_statistics_body DEBUG f_all f_set chat_id force_refresh
             current_date t1 t1' t2 t2' self))"

text \<open>The decorated \<open>get_daily_statistics\<close>; its key pattern has no replacement field.\<close>

definition GoogleSheetsClient_get_daily_statistics ::
  "bool \<Rightarrow> nat option \<Rightarrow> nat option \<Rightarrow> pyarg list \<Rightarrow> (string \<times> pyarg) list \<Rightarrow> string \<Rightarrow>
   real \<Rightarrow> real \<Rightarrow> real \<Rightarrow> real \<Rightarrow> real \<Rightarrow> real \<Rightarrow> GoogleSheetsClient \<Rightarrow> result \<times> GoogleSheetsClient" where
  "GoogleSheetsClient_get_daily_statistics DEBUG f_all f_set args kwargs current_date
       t_get t_set t1 t1' t2 t2' self =
     cache_result DEBUG [Lit ''get_daily_statistics''] ''get_daily_statistics''
       (\<lambda>s. returned (get_daily_statistics_func DEBUG f_all f_set (arg_chat_id args kwargs)
                         (kw_flag kwargs ''force_refresh'') current_date t1 t1' t2 t2' s))
       args kwargs t_get t_set self"

section \<open>sheets.py: the migration of legacy group labels\<close>

definition group_mapping :: "(string \<times> string) list" where
  "group_mapping = [(GROUP_E, ''-4605781130''), (GROUP_TEST123, ''-4608567148'')]"

text \<open>The test \<open>chat_id and chat_id.startswith('-')\<close> and the search of the mapping; a
  number has no \<open>startswith\<close>.\<close>

definition has_chat_id :: "pydict \<Rightarrow> exc + bool" where
  "has_chat_id tx =
     (case dict_get tx ''chat_id'' (PStr '''') of
        PInt c \<Rightarrow> if c \<noteq> 0 then Inl AttributeError else Inr False
      | PStr c \<Rightarrow> Inr (c \<noteq> [] \<and> prefix ''-'' c))"

definition new_chat_id :: "pydict \<Rightarrow> exc + string option" where
  "new_chat_id tx =
     (case dict_get tx ''group'' (PStr '''') of
        PInt g \<Rightarrow> Inl AttributeError
      | PStr g \<Rightarrow>
          Inr (map_option snd
                 (List.find (\<lambda>kv. prefix (fst kv) g \<or> g = snd kv) group_mapping)))"

text \<open>The loop over the transactions; \<open>faults\<close> holds the fault of each call of
  \<open>update_transaction\<close> in turn (none when the list is used up).\<close>

fun migrate_loop ::
  "nat option list \<Rightarrow> pydict list \<Rightarrow> nat \<Rightarrow> GoogleSheetsClient \<Rightarrow>
   (exc + nat) \<times> GoogleSheetsClient" where
  "migrate_loop faults [] updated_count self = (Inr updated_count, self)"
| "migrate_loop faults (tx # txs) updated_count self =
     (case bindE (has_chat_id tx) (\<lambda>skip. if skip then Inr None else new_chat_id tx) of
        Inl e \<Rightarrow> (Inl e, self)
      | Inr None \<Rightarrow> migrate_loop faults txs updated_count self
      | Inr (Some new) \<Rightarrow>
          migrate_loop (tl faults) txs (updated_count + 1)
            (snd (GoogleSheetsClient_update_transaction
                    (case faults of [] \<Rightarrow> None | f # fs \<Rightarrow> f)
                    (map_of tx ''id'') [(''chat_id'', PStr new)] self)))"

text \<open>\<open>migrate_transaction_data()\<close>: the number of updates it counted, and the client
  afterwards. Any exception is answered with 0.\<close>

definition migrate_transaction_data ::
  "bool \<Rightarrow> nat option \<Rightarrow> nat option list \<Rightarrow> real \<Rightarrow> real \<Rightarrow> GoogleSheetsClient \<Rightarrow>
   nat \<times> GoogleSheetsClient" where
  "migrate_transaction_data DEBUG f_all faults t_get t_set self =
     (case GoogleSheetsClient_get_all_transactions DEBUG f_all [(''force_refresh'', ABool True)]
             t_get t_set self of
        (RList all_transactions, self1) \<Rightarrow>
          (case migrate_loop faults all_transactions 0 self1 of
             (Inl e, self2) \<Rightarrow> (0, self2)
           | (Inr updated_count, self2) \<Rightarrow> (updated_count, self2))
      | (other, self1) \<Rightarrow> (0, self1))"

section \<open>models.py and database.py: the relational store\<close>

text \<open>
  The two model classes, with their columns as fields (prefixed \<open>t_\<close> and \<open>s_\<close>), and
  the database as its two tables. Times are kept as their formatted text.
\<close>

record Transaction =
  t_id :: int
  t_chat_id :: int
  t_amount :: int
  t_method :: string
  t_commission :: real
  t_rate :: real
  t_status :: string
  t_transaction_hash :: string
  t_created_at :: string
  t_updated_at :: string

record ChatSettings =
  s_id :: int
  s_chat_id :: int
  s_chat_name :: string
  s_exchange_rate :: real
  s_commission_percent :: real
  s_is_day_open :: bool
  s_created_at :: string
  s_updated_at :: string

record Database =
  transaction_table :: "Transaction list"
  chat_settings_table :: "ChatSettings list"

text \<open>The attributes that the model classes declare as columns. Reading any other
  attribute of the class, as in \<open>Transaction.date\<close>, raises \<open>AttributeError\<close>.\<close>

definition Transaction_columns :: "string list" where
  "Transaction_columns =
     [''id'', ''chat_id'', ''amount'', ''method'', ''commission'', ''rate'', ''status'',
      ''transaction_hash'', ''created_at'', ''updated_at'']"

definition ChatSettings_columns :: "string list" where
  "ChatSettings_columns =
     [''id'', ''chat_id'', ''chat_name'', ''exchange_rate'', ''commission_percent'',
      ''is_day_open'', ''created_at'', ''updated_at'']"

definition class_attr :: "string list \<Rightarrow> string \<Rightarrow> exc + string" where
  "class_attr columns name = (if name \<in> set columns then Inr name else Inl AttributeError)"

text \<open>The value of a text column of a row, by the column's name.\<close>

definition Transaction_text :: "string \<Rightarrow> Transaction \<Rightarrow> string option" where
  "Transaction_text name t =
     map_of [(''method'', t_method t), (''status'', t_status t),
             (''transaction_hash'', t_transaction_hash t), (''created_at'', t_created_at t),
             (''updated_at'', t_updated_at t)] name"

definition ChatSettings_text :: "string \<Rightarrow> ChatSettings \<Rightarrow> string option" where
  "ChatSettings_text name s =
     map_of [(''chat_name'', s_chat_name s), (''created_at'', s_created_at s),
             (''updated_at'', s_updated_at s)] name"

text \<open>
  The conversions of \<open>add_transaction\<close> and \<open>update_transaction\<close>: a string is stripped
  of its decoration and parsed, a number is taken as it is. The rouble sign has no
  Windows-1251 byte; it is given the unused code \<open>0x98\<close>.
\<close>

definition ROUBLE_SIGN :: char where
  "ROUBLE_SIGN = CHR 0x98"

fun db_amount :: "pyval \<Rightarrow> exc + int" where
  "db_amount (PInt i) = Inr i"
| "db_amount (PStr s) =
     (case py_int (filter (\<lambda>c. c \<noteq> ROUBLE_SIGN) (filter (\<lambda>c. c \<noteq> CHR '' '') s)) of
        None \<Rightarrow> Inl ValueError
      | Some i \<Rightarrow> Inr i)"

fun db_commission :: "pyval \<Rightarrow> exc + real" where
  "db_commission (PInt i) = Inr (of_int i)"
| "db_commission (PStr s) =
     (case py_float (filter (\<lambda>c. c \<noteq> CHR ''%'') s) of
        None \<Rightarrow> Inl ValueError
      | Some r \<Rightarrow> Inr r)"

fun db_rate :: "pyval \<Rightarrow> exc + real" where
  "db_rate (PInt i) = Inr (of_int i)"
| "db_rate (PStr s) =
     (case py_float (filter (\<lambda>c. c \<noteq> ROUBLE_SIGN) s) of
        None \<Rightarrow> Inl ValueError
      | Some r \<Rightarrow> Inr r)"

text \<open>
  The integer columns of the database hold signed 64-bit values (the configured default
  is an SQLite file); a commit that is handed a Python integer outside that range raises
  \<open>OverflowError\<close>.
\<close>

definition fits_integer_column :: "int \<Rightarrow> bool" where
  "fits_integer_column i = (- (2 ^ 63) \<le> i \<and> i < 2 ^ 63)"

text \<open>
  \<open>DatabaseManager.add_transaction(chat_id, data)\<close>. The only remote call is the commit
  (0); the new row gets the next primary key. Any exception rolls the session back and is
  raised again.
\<close>

definition DatabaseManager_add_transaction ::
  "nat option \<Rightarrow> string \<Rightarrow> int \<Rightarrow> pydict \<Rightarrow> Database \<Rightarrow> (exc + int) \<times> Database" where
  "DatabaseManager_add_transaction fault now_text chat_id data db =
     (case
        bindE (db_amount (dict_get data ''amount'' (PInt 0))) (\<lambda>amount.
        bindE (db_commission (dict_get data ''commission'' (PInt 0))) (\<lambda>commission.
        bindE (db_rate (dict_get data ''rate'' (PInt 0))) (\<lambda>rate.
          let transaction =
                \<lparr>t_id = (if transaction_table db = [] then 1
                          else list_max (map t_id (transaction_table db)) + 1),
                 t_chat_id = chat_id,
                 t_amount = amount,
                 t_method = str_val (dict_get data ''method'' (PStr '''')),
                 t_commission = commission,
                 t_rate = rate,
                 t_status = STATUS_NOT_PAID,
                 t_transaction_hash = str_val (dict_get data ''hash'' (PStr '''')),
                 t_created_at = now_text,
                 t_updated_at = now_text\<rparr>
          in if fits_integer_column chat_id \<and> fits_integer_column amount
             then api fault 0 transaction
             else Inl OverflowError))) of
        Inl e \<Rightarrow> (Inl e, db)
      | Inr transaction \<Rightarrow>
          (Inr (t_id transaction),
           db\<lparr>transaction_table := transaction_table db @ [transaction]\<rparr>))"

text \<open>The field assignments of \<open>update_transaction\<close>, in the order of the source.\<close>

definition db_assign :: "pydict \<Rightarrow> string \<Rightarrow> Transaction \<Rightarrow> exc + Transaction" where
  "db_assign data now_text t =
     bindE (case map_of data ''amount'' of
              None \<Rightarrow> Inr t
            | Some v \<Rightarrow> bindE (db_amount v) (\<lambda>a. Inr (t\<lparr>t_amount := a\<rparr>))) (\<lambda>t1.
     let t2 = (case map_of data ''method'' of
                 None \<Rightarrow> t1 | Some v \<Rightarrow> t1\<lparr>t_method := str_val v\<rparr>) in
     bindE (case map_of data ''commission'' of
              None \<Rightarrow> Inr t2
            | Some v \<Rightarrow> bindE (db_commission v) (\<lambda>c. Inr (t2\<lparr>t_commission := c\<rparr>))) (\<lambda>t3.
     bindE (case map_of data ''rate'' of
              None \<Rightarrow> Inr t3
            | Some v \<Rightarrow> bindE (db_rate v) (\<lambda>r. Inr (t3\<lparr>t_rate := r\<rparr>))) (\<lambda>t4.
     let t5 = (case map_of data ''status'' of
                 None \<Rightarrow> t4 | Some v \<Rightarrow> t4\<lparr>t_status := str_val v\<rparr>);
         t6 = (case map_of data ''hash'' of
                 None \<Rightarrow> t5 | Some v \<Rightarrow> t5\<lparr>t_transaction_hash := str_val v\<rparr>)
     in Inr (t6\<lparr>t_updated_at := now_text\<rparr>))))"

text \<open>
  \<open>DatabaseManager.update_transaction(transaction_id, data)\<close>: the look-up by primary key
  (0) and the commit (1) are the remote calls; any exception rolls back and is answered
  with \<open>False\<close>. \<open>mark_transaction_paid\<close> is an update of status and hash.
\<close>

definition DatabaseManager_update_transaction ::
  "nat option \<Rightarrow> string \<Rightarrow> int \<Rightarrow> pydict \<Rightarrow> Database \<Rightarrow> (exc + bool) \<times> Database" where
  "DatabaseManager_update_transaction fault now_text transaction_id data db =
     (case
        bindE (api fault 0 (List.find (\<lambda>t. t_id t = transaction_id) (transaction_table db)))
          (\<lambda>found.
             case found of
               None \<Rightarrow> Inr (False, db)
             | Some transaction \<Rightarrow>
                 bindE (db_assign data now_text transaction) (\<lambda>t'.
                 bindE (if fits_integer_column (t_amount t')
                        then api fault 1
                               (db\<lparr>transaction_table :=
                                     map (\<lambda>t. if t_id t = transaction_id then t' else t)
                                         (transaction_table db)\<rparr>)
                        else Inl OverflowError) (\<lambda>db'.
                   Inr (True, db')))) of
        Inl e \<Rightarrow> (Inr False, db)
      | Inr (ok, db') \<Rightarrow> (Inr ok, db'))"

definition DatabaseManager_mark_transaction_paid ::
  "nat option \<Rightarrow> string \<Rightarrow> int \<Rightarrow> string \<Rightarrow> Database \<Rightarrow> (exc + bool) \<times> Database" where
  "DatabaseManager_mark_transaction_paid fault now_text transaction_id transaction_hash db =
     DatabaseManager_update_transaction fault now_text transaction_id
       [(''status'', PStr STATUS_PAID), (''hash'', PStr transaction_hash)] db"

text \<open>The statistics that \<open>DatabaseManager.get_daily_statistics\<close> returns when it finds no
  transaction and when it catches an exception.\<close>

definition db_empty_stats :: stats where
  "db_empty_stats =
     \<lparr>stats_date = None, transactions_count = 0, total_amount = 0, awaiting_amount = 0,
      to_pay_amount = 0, paid_amount = 0, avg_rate = 0, avg_commission = 0, unpaid_usdt = 0,
      to_pay_usdt = 0, total_usdt = 0, paid_usdt = 0, methods_count = None\<rparr>"

text \<open>The status texts that count as paid: \<open>paid\<close>, the Russian for "paid for", and the
  Russian for "paid out", compared in lower case.\<close>

definition db_is_paid :: "Transaction \<Rightarrow> bool" where
  "db_is_paid tx =
     (lower (t_status tx)
        \<in> set [''paid'',
                 [CHR 0xEE, CHR 0xEF, CHR 0xEB, CHR 0xE0, CHR 0xF7, CHR 0xE5, CHR 0xED, CHR 0xEE],
                 paid_lower])"

text \<open>The loop over the day's transactions and the result it leads to.\<close>

definition db_compute_statistics :: "real \<Rightarrow> real \<Rightarrow> Transaction list \<Rightarrow> stats" where
  "db_compute_statistics current_rate current_commission transactions =
     (let total = sum_list (map (\<lambda>tx. real_of_int (t_amount tx)) transactions);
          paid = sum_list (map (\<lambda>tx. real_of_int (t_amount tx)) (filter db_is_paid transactions));
          unpaid = filter (\<lambda>tx. \<not> db_is_paid tx) transactions;
          awaiting = sum_list (map (\<lambda>tx. real_of_int (t_amount tx)) unpaid);
          to_pay = sum_list (map (\<lambda>tx. real_of_int (t_amount tx) * (1 - t_commission tx / 100))
                                 unpaid);
          rates = filter (\<lambda>r. r \<noteq> 0)
                    (map (\<lambda>tx. if t_rate tx \<noteq> 0 then t_rate tx else current_rate) transactions);
          commissions = map t_commission transactions;
          avg_r = average rates current_rate;
          avg_c = average commissions current_commission;
          usdt_rate = (if current_rate > 0 then current_rate
                       else if avg_r > 0 then avg_r else 90)
      in \<lparr>stats_date = None,
          transactions_count = length transactions,
          total_amount = total,
          awaiting_amount = awaiting,
          to_pay_amount = to_pay,
          paid_amount = paid,
          avg_rate = avg_r,
          avg_commission = avg_c,
          unpaid_usdt = (if usdt_rate > 0 then round2 (awaiting / usdt_rate) else 0),
          to_pay_usdt = (if usdt_rate > 0 then round2 (to_pay / usdt_rate) else 0),
          total_usdt = (if usdt_rate > 0 then round2 (total / usdt_rate) else 0),
          paid_usdt = (if usdt_rate > 0 then round2 (paid / usdt_rate) else 0),
          methods_count = None\<rparr>)"

text \<open>
  The body of the \<open>try\<close> block of \<open>DatabaseManager.get_daily_statistics(chat_id)\<close>. The
  query filters on \<open>Transaction.date\<close> and \<open>Transaction.chat_id\<close>, and the settings query
  on \<open>ChatSettings.chat_id\<close> and \<open>ChatSettings.date\<close>; each is an attribute access on the
  model class. (The object named \<open>session\<close> is the application context, which has no
  \<open>query\<close> attribute either; that access raises the same exception one step earlier.)
\<close>

definition db_statistics_try :: "Database \<Rightarrow> int \<Rightarrow> string \<Rightarrow> exc + stats" where
  "db_statistics_try db chat_id current_date =
     bindE (class_attr Transaction_columns ''date'') (\<lambda>date_column.
     bindE (class_attr Transaction_columns ''chat_id'') (\<lambda>chat_column.
       let transactions =
             filter (\<lambda>tx. Transaction_text date_column tx = Some current_date
                          \<and> t_chat_id tx = chat_id)
                    (transaction_table db)
       in if transactions = [] then Inr db_empty_stats
          else
            bindE (class_attr ChatSettings_columns ''chat_id'') (\<lambda>s_chat_column.
            bindE (class_attr ChatSettings_columns ''date'') (\<lambda>s_date_column.
              let day_settings =
                    List.find (\<lambda>s. s_chat_id s = chat_id
                                   \<and> ChatSettings_text s_date_column s = Some current_date)
                              (chat_settings_table db);
                  current_rate = (case day_settings of
                                    None \<Rightarrow> 0 | Some s \<Rightarrow> s_exchange_rate s);
                  current_commission = (case day_settings of
                                          None \<Rightarrow> 0 | Some s \<Rightarrow> s_commission_percent s)
              in Inr (db_compute_statistics current_rate current_commission transactions)))))"

definition DatabaseManager_get_daily_statistics ::
  "Database \<Rightarrow> int \<Rightarrow> bool \<Rightarrow> string \<Rightarrow> stats" where
  "DatabaseManager_get_daily_statistics db chat_id force_refresh current_date =
     (case db_statistics_try db chat_id current_date of
        Inl e \<Rightarrow> db_empty_stats
      | Inr r \<Rightarrow> r)"

text \<open>
  \<open>DatabaseManager.is_day_open(chat_id)\<close>: the query for the first settings row (0) is
  the only remote call. The method has no \<open>try\<close> statement, so what the query raises
  reaches the caller.
\<close>

definition DatabaseManager_is_day_open :: "nat option \<Rightarrow> int \<Rightarrow> Database \<Rightarrow> exc + bool" where
  "DatabaseManager_is_day_open fault chat_id db =
     bindE (api fault 0 (case chat_settings_table db of [] \<Rightarrow> None | s # rest \<Rightarrow> Some s))
       (\<lambda>settings. Inr (case settings of None \<Rightarrow> False | Some s \<Rightarrow> s_is_day_open s))"

text \<open>A worksheet used in the examples below: a header row and the transaction 7.\<close>

definition example_header :: "string list" where
  "example_header = [''ID'', ''datetime'', ''amount'', ''method'', ''commission'', ''rate'',
                     ''status'', ''group'', ''hash'', ''chat_id'']"

definition example_sheet :: "string list list" where
  "example_sheet =
     [example_header,
      [''7'', ''03.11.2026 10:00:00'', ''1000'', ''USDT'', ''5'', ''90'', STATUS_NOT_PAID,
       ''-100'', '''', ''-100'']]"

text \<open>A worksheet whose transaction 7 has no group, hash or chat identifier cell: the row
  has the 7 cells up to the status.\<close>

definition short_row_sheet :: "string list list" where
  "short_row_sheet =
     [example_header,
      [''7'', ''03.11.2026 10:00:00'', ''1000'', ''USDT'', ''5'', ''90'', STATUS_NOT_PAID]]"

text \<open>A worksheet with one legacy transaction: its group label is the test group and it
  has no chat identifier.\<close>

definition legacy_sheet :: "string list list" where
  "legacy_sheet =
     [example_header,
      [''1'', ''01.11.2026 10:00:00'', ''1000'', ''USDT'', ''5'', ''90'', STATUS_NOT_PAID,
       GROUP_TEST123]]"

text \<open>An input dictionary that supplies a status and a hash of its own.\<close>

definition hash_data :: pydict where
  "hash_data = [(''amount'', PInt 1000), (''method'', PStr ''USDT''), (''commission'', PStr ''5%''),
                (''rate'', PStr ''92.5''), (''status'', PStr ''paid''), (''hash'', PStr ''0xabc'')]"

text \<open>
  The example of the statistics: chat \<open>-100\<close> has three transactions on 03.11.2026 with
  the amounts 1000 (paid out), 2000 and 3000 (not paid out), each with commission 10, and
  day settings with rate 100; once as a live client with its two worksheets, once as a
  database.
\<close>

definition stats_client :: GoogleSheetsClient where
  "stats_client =
     (GoogleSheetsClient_init
        [example_header,
         [''1'', ''03.11.2026 10:00:00'', ''1000'', ''USDT'', ''10'', ''100'', STATUS_PAID,
          ''-100'', ''0xabc'', ''-100''],
         [''2'', ''03.11.2026 11:00:00'', ''2000'', ''USDT'', ''10'', ''100'', STATUS_NOT_PAID,
          ''-100'', '''', ''-100''],
         [''3'', ''03.11.2026 12:00:00'', ''3000'', ''USDT'', ''10'', ''100'', STATUS_NOT_PAID,
          ''-100'', '''', ''-100'']])
       \<lparr>DaySettings := Some [DaySettings_header, [''03.11.2026'', ''100'', ''10'', ''-100'']]\<rparr>"

definition stats_database :: Database where
  "stats_database =
     \<lparr>transaction_table =
        [\<lparr>t_id = 1, t_chat_id = - 100, t_amount = 1000, t_method = ''USDT'', t_commission = 10,
          t_rate = 100, t_status = STATUS_PAID, t_transaction_hash = ''0xabc'',
          t_created_at = ''03.11.2026 10:00:00'', t_updated_at = ''03.11.2026 10:00:00''\<rparr>,
         \<lparr>t_id = 2, t_chat_id = - 100, t_amount = 2000, t_method = ''USDT'', t_commission = 10,
          t_rate = 100, t_status = STATUS_NOT_PAID, t_transaction_hash = '''',
          t_created_at = ''03.11.2026 11:00:00'', t_updated_at = ''03.11.2026 11:00:00''\<rparr>,
         \<lparr>t_id = 3, t_chat_id = - 100, t_amount = 3000, t_method = ''USDT'', t_commission = 10,
          t_rate = 100, t_status = STATUS_NOT_PAID, t_transaction_hash = '''',
          t_created_at = ''03.11.2026 12:00:00'', t_updated_at = ''03.11.2026 12:00:00''\<rparr>],
      chat_settings_table =
        [\<lparr>s_id = 1, s_chat_id = 1, s_chat_name = ''Global Settings'', s_exchange_rate = 100,
          s_commission_percent = 10, s_is_day_open = True,
          s_created_at = ''03.11.2026 09:00:00'', s_updated_at = ''03.11.2026 09:00:00''\<rparr>]\<rparr>"

section \<open>Properties\<close>

lemma map_of_delete_other:
  "k \<noteq> k' \<Longrightarrow> map_of (AList.delete k al) k' = map_of al k'"
  by (simp add: delete_conv')

text \<open>
  C1. After \<open>DataManager.get_daily_statistics(C)\<close> has filled the statistics cache,
  \<open>DataManager.clear_stats_cache(C)\<close> leaves the entry for \<open>C\<close> where it was: the cache
  is written under the string key \<open>"day_stats_C"\<close> and cleared under the integer key \<open>C\<close>.
  The next \<open>get_daily_statistics(C)\<close> without \<open>force_refresh\<close> returns the cached record
  and does not touch the backend, whatever the backend would compute.
\<close>

theorem clear_stats_cache_keeps_entry:
  "DataManager_get_daily_statistics db sh C False (dm, b) = (r, dm1, b1) \<Longrightarrow>
   map_of (stats_cache (DataManager_clear_stats_cache C dm1)) (KStr (''day_stats_'' @ str_int C)) = Some r
   \<and> DataManager_get_daily_statistics db' sh' C False (DataManager_clear_stats_cache C dm1, b1)
       = (r, DataManager_clear_stats_cache C dm1, b1)"
proof -
  assume run: "DataManager_get_daily_statistics db sh C False (dm, b) = (r, dm1, b1)"
  let ?k = "KStr (''day_stats_'' @ str_int C)"
  have filled: "map_of (stats_cache dm1) ?k = Some r"
    using run
    by (auto simp: DataManager_get_daily_statistics_def Let_def update_conv'
             split: option.splits prod.splits if_splits)
  have kept: "map_of (stats_cache (DataManager_clear_stats_cache C dm1)) ?k = Some r"
    using filled by (simp add: DataManager_clear_stats_cache_def map_of_delete_other)
  then show ?thesis
    by (simp add: DataManager_get_daily_statistics_def Let_def)
qed

theorem clear_stats_cache_keeps_entry_witness:
  "DataManager_get_daily_statistics (\<lambda>c f b. (empty_stats, b)) (\<lambda>c f b. (empty_stats, b)) 5 False
     (\<lparr>data_source = ''sheets'', stats_cache = []\<rparr>, ())
     = (empty_stats,
        \<lparr>data_source = ''sheets'', stats_cache = [(KStr ''day_stats_5'', empty_stats)]\<rparr>, ())
   \<and> map_of (stats_cache (DataManager_clear_stats_cache 5
         \<lparr>data_source = ''sheets'', stats_cache = [(KStr ''day_stats_5'', empty_stats)]\<rparr>))
         (KStr ''day_stats_5'') = Some empty_stats"
proof -
  have run: "DataManager_get_daily_statistics (\<lambda>c f b. (empty_stats, b)) (\<lambda>c f b. (empty_stats, b))
       5 False (\<lparr>data_source = ''sheets'', stats_cache = []\<rparr>, ())
     = (empty_stats,
        \<lparr>data_source = ''sheets'', stats_cache = [(KStr ''day_stats_5'', empty_stats)]\<rparr>, ())"
    by (simp add: DataManager_get_daily_statistics_def str_int_def str_nat.simps)
  have five: "''day_stats_'' @ str_int 5 = ''day_stats_5''"
    by (simp add: str_int_def str_nat.simps)
  note kept = clear_stats_cache_keeps_entry [OF run, unfolded five, THEN conjunct1]
  show ?thesis
    by (rule conjI) (rule run, rule kept)
qed


subsection \<open>The read-through decorator\<close>

lemmas eval_simps =
  cache_result_def cache_key_def CacheManager_get_def CacheManager_set_def CacheManager_init_def
  GoogleSheetsClient_init_def GoogleSheetsClient_get_transaction_def get_transaction_func_def
  get_transaction_try_def returned_def api_def bindE_def col_values_def row_values_def
  find_row_def py_int_def signed_group_def group_nat_def ungroup_def strip_def is_space_def
  digit_val_def str_int_def str_nat.simps example_sheet_def
  example_header_def CACHE_DURATION_def entry_valid_def Let_def
  GoogleSheetsClient_get_all_transactions_def get_all_transactions_func_def
  get_all_transactions_try_def kw_date_def kw_flag_def row_to_transaction_def isdigit_def

lemma CacheManager_get_miss:
  "\<not> entry_valid cm key now \<Longrightarrow>
   fst (CacheManager_get cm key now) = (RNone, False)
   \<and> misses (snd (CacheManager_get cm key now)) = misses cm + 1
   \<and> hits (snd (CacheManager_get cm key now)) = hits cm"
  by (auto simp: entry_valid_def CacheManager_get_def Let_def split: option.splits prod.splits)

lemma CacheManager_get_hit:
  "map_of (cache cm) key = Some (ts, v) \<Longrightarrow> now - ts < CACHE_DURATION \<Longrightarrow>
   CacheManager_get cm key now =
     ((v, True), cm\<lparr>last_access_time := AList.update key now (last_access_time cm),
                     hits := hits cm + 1\<rparr>)"
  by (simp add: CacheManager_get_def Let_def)

lemma cache_result_miss:
  assumes live: "\<not> dummy_mode self"
    and cold: "\<not> entry_valid (cache_manager self) (cache_key kp fname args kwargs) t_get"
    and run: "func (self\<lparr>cache_manager :=
                 snd (CacheManager_get (cache_manager self) (cache_key kp fname args kwargs) t_get)\<rparr>)
              = (r, self2)"
  shows "cache_result False kp fname func args kwargs t_get t_set self =
           (r, if r \<noteq> RNone
               then self2\<lparr>cache_manager :=
                      CacheManager_set (cache_manager self2) (cache_key kp fname args kwargs) r t_set\<rparr>
               else self2)"
proof -
  let ?key = "cache_key kp fname args kwargs"
  obtain cm1 where g: "CacheManager_get (cache_manager self) ?key t_get = ((RNone, False), cm1)"
    using CacheManager_get_miss [OF cold] by (metis prod.collapse)
  show ?thesis
    using live run g by (simp add: cache_result_def Let_def)
qed

lemma cache_result_hit:
  assumes live: "\<not> dummy_mode self"
    and entry: "map_of (cache (cache_manager self)) (cache_key kp fname args kwargs) = Some (ts, v)"
    and ttl: "t_get - ts < CACHE_DURATION"
  shows "cache_result False kp fname func args kwargs t_get t_set self =
           (v, self\<lparr>cache_manager := (cache_manager self)
                 \<lparr>last_access_time := AList.update (cache_key kp fname args kwargs) t_get
                                        (last_access_time (cache_manager self)),
                  hits := hits (cache_manager self) + 1\<rparr>\<rparr>)"
  using live by (simp add: cache_result_def Let_def CacheManager_get_hit [OF entry ttl])

text \<open>
  C2 (as amended). With the client in live mode and \<open>DEBUG\<close> off, take a first call of a
  decorated operation whose look-up finds no valid entry, and let it return \<open>r1\<close>, which is
  not \<open>None\<close>. Then the first look-up is counted as one miss and no hit, the underlying
  function is invoked and \<open>r1\<close> is what it returned; and a second call with the same
  arguments, started on the state the first call left less than \<open>CACHE_DURATION\<close> after the
  result was stored, returns \<open>r1\<close> whatever the underlying function \<open>func'\<close> would do now,
  counts one hit, and changes nothing but the hit counter and the last-access time.
\<close>

theorem cache_result_second_call_hits:
  assumes live: "\<not> dummy_mode c0"
    and cold: "\<not> entry_valid (cache_manager c0) (cache_key kp fname args kwargs) t1"
    and first: "cache_result False kp fname func args kwargs t1 t1' c0 = (r1, c1)"
    and some: "r1 \<noteq> RNone"
    and live1: "\<not> dummy_mode c1"
    and ttl: "t2 - t1' < CACHE_DURATION"
  shows "(\<exists>c'. func (c0\<lparr>cache_manager :=
                   snd (CacheManager_get (cache_manager c0) (cache_key kp fname args kwargs) t1)\<rparr>)
               = (r1, c')
             \<and> misses (snd (CacheManager_get (cache_manager c0) (cache_key kp fname args kwargs) t1))
                 = misses (cache_manager c0) + 1
             \<and> hits (snd (CacheManager_get (cache_manager c0) (cache_key kp fname args kwargs) t1))
                 = hits (cache_manager c0))
         \<and> cache_result False kp fname func' args kwargs t2 t2' c1 =
             (r1, c1\<lparr>cache_manager := (cache_manager c1)
                  \<lparr>last_access_time := AList.update (cache_key kp fname args kwargs) t2
                                         (last_access_time (cache_manager c1)),
                   hits := hits (cache_manager c1) + 1\<rparr>\<rparr>)"
proof -
  let ?key = "cache_key kp fname args kwargs"
  let ?cmA = "snd (CacheManager_get (cache_manager c0) ?key t1)"
  obtain r c' where run: "func (c0\<lparr>cache_manager := ?cmA\<rparr>) = (r, c')"
    by (cases "func (c0\<lparr>cache_manager := ?cmA\<rparr>)") auto
  note miss = cache_result_miss [where func = func and self = c0 and t_set = t1', OF live cold run]
  from miss first have r: "r = r1"
    and c1: "c1 = (if r \<noteq> RNone
                   then c'\<lparr>cache_manager := CacheManager_set (cache_manager c') ?key r t1'\<rparr>
                   else c')"
    by auto
  from c1 r some have entry: "map_of (cache (cache_manager c1)) ?key = Some (t1', r1)"
    by (simp add: CacheManager_set_def update_conv')
  have second: "cache_result False kp fname func' args kwargs t2 t2' c1 =
             (r1, c1\<lparr>cache_manager := (cache_manager c1)
                  \<lparr>last_access_time := AList.update ?key t2 (last_access_time (cache_manager c1)),
                   hits := hits (cache_manager c1) + 1\<rparr>\<rparr>)"
    by (rule cache_result_hit [OF live1 entry ttl])
  from run r CacheManager_get_miss [OF cold] second show ?thesis by blast
qed

text \<open>Witness: \<open>get_transaction(7)\<close> on the example worksheet at time 0 (stored at time 1),
  then again at time 3.\<close>

theorem cache_result_second_call_hits_witness:
  "fst (GoogleSheetsClient_get_transaction False None 7 3 3
          (snd (GoogleSheetsClient_get_transaction False None 7 0 1
                  (GoogleSheetsClient_init example_sheet))))
     = fst (GoogleSheetsClient_get_transaction False None 7 0 1
              (GoogleSheetsClient_init example_sheet))
   \<and> fst (GoogleSheetsClient_get_transaction False None 7 0 1
            (GoogleSheetsClient_init example_sheet)) \<noteq> RNone
   \<and> hits (cache_manager (snd (GoogleSheetsClient_get_transaction False None 7 3 3
          (snd (GoogleSheetsClient_get_transaction False None 7 0 1
                  (GoogleSheetsClient_init example_sheet)))))) = 1
   \<and> misses (cache_manager (snd (GoogleSheetsClient_get_transaction False None 7 3 3
          (snd (GoogleSheetsClient_get_transaction False None 7 0 1
                  (GoogleSheetsClient_init example_sheet)))))) = 1"
proof -
  let ?c0 = "GoogleSheetsClient_init example_sheet"
  let ?f = "\<lambda>s. returned (get_transaction_func None 7 s)"
  let ?kp = "[Lit ''get_transaction:'', Field 0]"
  let ?first = "cache_result False ?kp ''get_transaction'' ?f [AInt 7] [] 0 1 ?c0"
  have live: "\<not> dummy_mode ?c0"
    by (simp add: GoogleSheetsClient_init_def)
  have cold: "\<not> entry_valid (cache_manager ?c0) (cache_key ?kp ''get_transaction'' [AInt 7] []) 0"
    by (simp add: eval_simps)
  have first: "?first = (fst ?first, snd ?first)"
    by simp
  have some: "fst ?first \<noteq> RNone"
    by (simp add: eval_simps)
  have live1: "\<not> dummy_mode (snd ?first)"
    by (simp add: eval_simps)
  have counters: "hits (cache_manager (snd ?first)) = 0 \<and> misses (cache_manager (snd ?first)) = 1"
    by (simp add: eval_simps)
  have ttl: "(3::real) - 1 < CACHE_DURATION"
    by (simp add: CACHE_DURATION_def)
  note second = cache_result_second_call_hits
    [where func = ?f and func' = ?f and t2' = 3, OF live cold first some live1 ttl, THEN conjunct2]
  show ?thesis
    unfolding GoogleSheetsClient_get_transaction_def
    using some counters by (simp add: second)
qed

text \<open>C2 as stated fails: the look-up of a transaction that does not exist returns \<open>None\<close>,
  which is not stored, so the second call within the time-to-live is a miss again and runs
  the underlying function again.\<close>

theorem cache_result_second_call_counterexample:
  "fst (GoogleSheetsClient_get_transaction False None 8 0 1 (GoogleSheetsClient_init example_sheet))
     = RNone
   \<and> hits (cache_manager (snd (GoogleSheetsClient_get_transaction False None 8 3 3
          (snd (GoogleSheetsClient_get_transaction False None 8 0 1
                  (GoogleSheetsClient_init example_sheet)))))) = 0
   \<and> misses (cache_manager (snd (GoogleSheetsClient_get_transaction False None 8 3 3
          (snd (GoogleSheetsClient_get_transaction False None 8 0 1
                  (GoogleSheetsClient_init example_sheet)))))) = 2"
  by (simp add: eval_simps)

text \<open>
  C3 (as amended). When the look-up of a decorated call misses, the underlying function is
  invoked, its result \<open>r\<close> is returned, and \<open>r\<close> is stored under the call's key exactly when
  it is not \<open>None\<close>: an empty list is stored like any other value, and after a \<open>None\<close> the
  key has whatever entry the underlying function left.
\<close>

theorem cache_result_stores_unless_none:
  assumes live: "\<not> dummy_mode self"
    and cold: "\<not> entry_valid (cache_manager self) (cache_key kp fname args kwargs) t_get"
    and run: "func (self\<lparr>cache_manager :=
                 snd (CacheManager_get (cache_manager self) (cache_key kp fname args kwargs) t_get)\<rparr>)
              = (r, self2)"
  shows "fst (cache_result False kp fname func args kwargs t_get t_set self) = r
         \<and> map_of (cache (cache_manager
                  (snd (cache_result False kp fname func args kwargs t_get t_set self))))
               (cache_key kp fname args kwargs)
             = (if r \<noteq> RNone then Some (t_set, r)
                else map_of (cache (cache_manager self2)) (cache_key kp fname args kwargs))"
  by (simp add: cache_result_miss [where func = func, OF live cold run]
                CacheManager_set_def update_conv')

text \<open>Witness: \<open>get_transaction(7)\<close> on the example worksheet; the dictionary it returns is
  stored.\<close>

theorem cache_result_stores_unless_none_witness:
  "map_of (cache (cache_manager
       (snd (GoogleSheetsClient_get_transaction False None 7 0 1
               (GoogleSheetsClient_init example_sheet)))))
     ''get_transaction:7''
   = Some (1, fst (GoogleSheetsClient_get_transaction False None 7 0 1
                     (GoogleSheetsClient_init example_sheet)))
   \<and> fst (GoogleSheetsClient_get_transaction False None 7 0 1
            (GoogleSheetsClient_init example_sheet)) \<noteq> RNone"
proof -
  let ?c0 = "GoogleSheetsClient_init example_sheet"
  let ?f = "\<lambda>s. returned (get_transaction_func None 7 s)"
  let ?kp = "[Lit ''get_transaction:'', Field 0]"
  let ?key = "cache_key ?kp ''get_transaction'' [AInt 7] []"
  let ?c0' = "?c0\<lparr>cache_manager := snd (CacheManager_get (cache_manager ?c0) ?key 0)\<rparr>"
  have key: "?key = ''get_transaction:7''"
    by (simp add: cache_key_def str_int_def str_nat.simps)
  have live: "\<not> dummy_mode ?c0"
    by (simp add: GoogleSheetsClient_init_def)
  have cold: "\<not> entry_valid (cache_manager ?c0) ?key 0"
    by (simp add: eval_simps)
  have run: "?f ?c0' = (fst (?f ?c0'), snd (?f ?c0'))"
    by simp
  have some: "fst (?f ?c0') \<noteq> RNone"
    by (simp add: eval_simps)
  let ?cr = "cache_result False ?kp ''get_transaction'' ?f [AInt 7] [] 0 1 ?c0"
  note stored = cache_result_stores_unless_none
    [where func = ?f and t_set = 1, OF live cold run]
  from stored have res: "fst ?cr = fst (?f ?c0')"
    by (rule conjunct1)
  from stored some have entry:
    "map_of (cache (cache_manager (snd ?cr))) ?key = Some (1, fst (?f ?c0'))"
    by (simp only: if_True simp_thms)
  from entry res some show ?thesis
    unfolding GoogleSheetsClient_get_transaction_def key by (simp only: simp_thms)
qed

text \<open>C3 as stated fails: the empty transaction list that \<open>get_all_transactions()\<close> returns
  for a worksheet with no data rows is stored in the cache.\<close>

theorem cache_result_stores_empty_list_counterexample:
  "GoogleSheetsClient_get_all_transactions False None [] 0 1
       (GoogleSheetsClient_init [example_header])
     = (RList [],
        (GoogleSheetsClient_init [example_header])
          \<lparr>cache_manager :=
             \<lparr>cache = [(''get_all_transactions'', 1, RList [])], hits = 0, misses = 1,
              last_access_time = [(''get_all_transactions'', 0)], invalidations = 0\<rparr>\<rparr>)"
  by (simp add: eval_simps)


subsection \<open>update_transaction\<close>

lemma find_enumerate:
  "List.find (\<lambda>p. snd p = s) (enumerate n xs) = Some p \<Longrightarrow>
   n \<le> fst p \<and> fst p < n + length xs \<and> xs ! (fst p - n) = s"
proof (induction xs arbitrary: n)
  case Nil
  then show ?case by simp
next
  case (Cons x xs)
  show ?case
  proof (cases "x = s")
    case True
    with Cons.prems show ?thesis by auto
  next
    case False
    with Cons.prems have "List.find (\<lambda>p. snd p = s) (enumerate (Suc n) xs) = Some p"
      by simp
    from Cons.IH [OF this]
    have ih: "Suc n \<le> fst p" "fst p < Suc n + length xs" "xs ! (fst p - Suc n) = s"
      by simp_all
    from ih(1) have "fst p - n = Suc (fst p - Suc n)"
      by arith
    with ih show ?thesis by simp
  qed
qed

lemma find_row_Some:
  "find_row id_col s = Some i \<Longrightarrow> 1 \<le> i \<and> i \<le> length id_col \<and> id_col ! (i - 1) = s"
  unfolding find_row_def using find_enumerate [of s 0 id_col] by auto

lemma update_transaction_live_cases:
  assumes live: "\<not> dummy_mode self"
  shows "snd (GoogleSheetsClient_update_transaction fault transaction_id data self) = self
         \<or> (\<exists>i. 1 \<le> i \<and> i \<le> length (sheet self)
               \<and> 8 \<le> length (sheet self ! (i - 1))
               \<and> sheet (snd (GoogleSheetsClient_update_transaction fault transaction_id data self))
                   = update_cells (sheet self) i (updated_row data (sheet self ! (i - 1))))"
proof (cases "find_row (col_values (sheet self)) (str_opt transaction_id)")
  case None
  with live show ?thesis
    by (simp add: GoogleSheetsClient_update_transaction_def update_transaction_try_def
                  api_def bindE_def)
next
  case (Some i)
  from find_row_Some [OF Some] have i: "1 \<le> i" "i \<le> length (sheet self)"
    by (simp_all add: col_values_def)
  with live Some show ?thesis
    by (auto simp: GoogleSheetsClient_update_transaction_def update_transaction_try_def
                   api_def bindE_def row_values_def)
qed

lemma length_updated_row: "length (updated_row data row) = 10"
  by (simp add: updated_row_def)

lemma updated_row_keeps:
  assumes "j < length row" and "j \<notin> {2, 3, 4, 5, 6, 8, 9}"
  shows "(updated_row data row @ drop 10 row) ! j = row ! j"
proof -
  from assms(2) consider "j = 0" | "j = 1" | "j = 7" | "10 \<le> j"
    by (cases "j < 10") (auto simp: less_Suc_eq numeral_eq_Suc)
  then show ?thesis
  proof cases
    case 4
    then have "j = 10 + (j - 10)" by arith
    with assms(1) 4 show ?thesis
      by (simp add: nth_append length_updated_row)
  qed (simp_all add: updated_row_def)
qed

text \<open>
  C10. In live mode, whatever the update dictionary holds and whether or not the backend
  answers, \<open>update_transaction\<close> keeps the number of rows, and every cell that existed
  before the call and is not in one of the columns of amount, method, commission, rate,
  status, hash and chat identifier (columns 2 to 6, 8 and 9, counted from 0) holds the
  same text after the call. In particular the identifier (column 0), the creation time
  (column 1) and the group label (column 7) of every transaction are unchanged.
\<close>

theorem update_transaction_frame:
  assumes live: "\<not> dummy_mode self"
    and i: "i < length (sheet self)"
    and j: "j < length (sheet self ! i)"
    and col: "j \<notin> {2, 3, 4, 5, 6, 8, 9}"
  shows "length (sheet (snd (GoogleSheetsClient_update_transaction fault transaction_id data self)))
           = length (sheet self)
         \<and> sheet (snd (GoogleSheetsClient_update_transaction fault transaction_id data self)) ! i ! j
           = sheet self ! i ! j"
proof -
  let ?self' = "snd (GoogleSheetsClient_update_transaction fault transaction_id data self)"
  from update_transaction_live_cases [OF live, of fault transaction_id data]
  consider (same) "?self' = self"
    | (upd) k where "1 \<le> k" "k \<le> length (sheet self)" "8 \<le> length (sheet self ! (k - 1))"
        "sheet ?self' = update_cells (sheet self) k (updated_row data (sheet self ! (k - 1)))"
    by blast
  then show ?thesis
  proof cases
    case same
    then show ?thesis by simp
  next
    case upd
    show ?thesis
    proof (cases "i = k - 1")
      case False
      with upd show ?thesis by (simp add: update_cells_def)
    next
      case True
      with upd i j col show ?thesis
        by (simp add: update_cells_def length_updated_row updated_row_keeps)
    qed
  qed
qed

text \<open>Witness: an update of transaction 7 that supplies \<open>id\<close>, \<open>group\<close> and \<open>amount\<close>
  succeeds and leaves the group cell as it was.\<close>

theorem update_transaction_frame_witness:
  "\<not> dummy_mode (GoogleSheetsClient_init example_sheet)
   \<and> (1::nat) < length (sheet (GoogleSheetsClient_init example_sheet))
   \<and> (7::nat) < length (sheet (GoogleSheetsClient_init example_sheet) ! 1)
   \<and> (7::nat) \<notin> {2, 3, 4, 5, 6, 8, 9}
   \<and> sheet (snd (GoogleSheetsClient_update_transaction None (Some (PInt 7))
         [(''id'', PInt 99), (''group'', PStr ''other''), (''amount'', PStr ''5'')]
         (GoogleSheetsClient_init example_sheet))) ! 1 ! 7 = ''-100''
   \<and> fst (GoogleSheetsClient_update_transaction None (Some (PInt 7))
         [(''id'', PInt 99), (''group'', PStr ''other''), (''amount'', PStr ''5'')]
         (GoogleSheetsClient_init example_sheet)) = Inr True"
proof -
  let ?c = "GoogleSheetsClient_init example_sheet"
  have live: "\<not> dummy_mode ?c"
    by (simp add: GoogleSheetsClient_init_def)
  have i: "(1::nat) < length (sheet ?c)"
    by (simp add: GoogleSheetsClient_init_def example_sheet_def)
  have j: "(7::nat) < length (sheet ?c ! 1)"
    by (simp add: GoogleSheetsClient_init_def example_sheet_def)
  have col: "(7::nat) \<notin> {2, 3, 4, 5, 6, 8, 9}"
    by simp
  have old: "sheet ?c ! 1 ! 7 = ''-100''"
    by (simp add: GoogleSheetsClient_init_def example_sheet_def)
  have ok: "fst (GoogleSheetsClient_update_transaction None (Some (PInt 7))
         [(''id'', PInt 99), (''group'', PStr ''other''), (''amount'', PStr ''5'')] ?c) = Inr True"
    by (simp add: GoogleSheetsClient_update_transaction_def update_transaction_try_def
          GoogleSheetsClient_init_def example_sheet_def example_header_def api_def bindE_def
          col_values_def find_row_def str_opt_def str_int_def str_nat.simps row_values_def)
  from update_transaction_frame [OF live i j col, of None "Some (PInt 7)"
         "[(''id'', PInt 99), (''group'', PStr ''other''), (''amount'', PStr ''5'')]"]
    live i j col old ok
  show ?thesis by simp
qed


subsection \<open>mark_transaction_paid\<close>

text \<open>
  C6 fails on the code for a transaction whose row ends at the status cell:
  \<open>get_transaction\<close> finds it, \<open>update_transaction\<close> reads the eighth cell of the row
  without a length test and raises \<open>IndexError\<close>, and the first
  \<open>mark_transaction_paid\<close> already answers \<open>False\<close>, with the worksheet unchanged.
\<close>

theorem mark_transaction_paid_short_row:
  "GoogleSheetsClient_mark_transaction_paid False None None 7 ''0xabc'' 0 1
       (GoogleSheetsClient_init short_row_sheet)
     = (Inr False,
        (GoogleSheetsClient_init short_row_sheet)
          \<lparr>cache_manager :=
             \<lparr>cache = [(''get_transaction:7'', 1,
                        RDict [(''id'', PInt 7), (''datetime'', PStr ''03.11.2026 10:00:00''),
                               (''amount'', PStr ''1000''), (''method'', PStr ''USDT''),
                               (''commission'', PStr ''5''), (''rate'', PStr ''90''),
                               (''status'', PStr STATUS_NOT_PAID), (''group'', PStr ''''),
                               (''hash'', PStr ''''), (''chat_id'', PStr '''')])],
              hits = 0, misses = 1, last_access_time = [(''get_transaction:7'', 0)],
              invalidations = 0\<rparr>\<rparr>)"
  by (simp add: GoogleSheetsClient_mark_transaction_paid_def eval_simps short_row_sheet_def
        GoogleSheetsClient_update_transaction_def update_transaction_try_def str_opt_def)


subsection \<open>is_day_open\<close>

lemma is_day_open_func_no_rows:
  assumes live: "\<not> dummy_mode self"
    and norows: "case DayStatus self of
                   None \<Rightarrow> True
                 | Some rows \<Rightarrow> filter (\<lambda>row. length row > 3 \<and> row ! 3 = str_int C) (tl rows) = []"
  shows "fst (is_day_open_func fault (Some C) today self) = Inr (RBool False)"
  using live norows
  by (auto simp: is_day_open_func_def is_day_open_try_def Let_def split: option.splits)

lemma is_day_open_func_live:
  "\<not> dummy_mode self \<Longrightarrow> \<not> dummy_mode (snd (is_day_open_func fault c today self))"
  by (auto simp: is_day_open_func_def is_day_open_try_def Let_def split: option.splits)

lemma cache_result_cases:
  "(\<exists>ts. map_of (cache (cache_manager self)) (cache_key kp fname args kwargs)
           = Some (ts, fst (cache_result DEBUG kp fname func args kwargs t_get t_set self)))
   \<or> fst (cache_result DEBUG kp fname func args kwargs t_get t_set self) = fst (func self)
   \<or> (\<exists>cm. fst (cache_result DEBUG kp fname func args kwargs t_get t_set self)
             = fst (func (self\<lparr>cache_manager := cm\<rparr>)))"
proof (cases "dummy_mode self \<or> DEBUG \<and> \<not> (case map_of kwargs ''force_cache'' of
                                               Some v \<Rightarrow> truthy v | None \<Rightarrow> False)")
  case True
  then show ?thesis by (auto simp: cache_result_def)
next
  case False
  let ?key = "cache_key kp fname args kwargs"
  obtain v ex cm1 where g: "CacheManager_get (cache_manager self) ?key t_get = ((v, ex), cm1)"
    by (metis prod.collapse)
  show ?thesis
  proof (cases ex)
    case True
    with g have "\<exists>ts. map_of (cache (cache_manager self)) ?key = Some (ts, v)"
      by (auto simp: CacheManager_get_def Let_def split: option.splits if_splits)
    moreover from False g True
    have "fst (cache_result DEBUG kp fname func args kwargs t_get t_set self) = v"
      by (auto simp: cache_result_def Let_def)
    ultimately show ?thesis by simp
  next
    case nex: False
    obtain r s2 where run: "func (self\<lparr>cache_manager := cm1\<rparr>) = (r, s2)"
      by (metis prod.collapse)
    from False g nex run
    have "fst (cache_result DEBUG kp fname func args kwargs t_get t_set self)
            = fst (func (self\<lparr>cache_manager := cm1\<rparr>))"
      by (auto simp: cache_result_def Let_def)
    then show ?thesis by blast
  qed
qed

text \<open>In live mode, for a chat identifier \<open>C\<close> for which the \<open>DayStatus\<close> worksheet has no
  row (the worksheet may be missing, empty, or hold rows of other chats only), and with no
  answer other than \<open>False\<close> cached for \<open>C\<close>, \<open>is_day_open(C)\<close> returns \<open>False\<close>, whether
  the backend answers or raises and whatever the \<open>DEBUG\<close> flag is.\<close>

lemma is_day_open_no_rows_live:
  assumes live: "\<not> dummy_mode self"
    and norows: "case DayStatus self of
                   None \<Rightarrow> True
                 | Some rows \<Rightarrow> filter (\<lambda>row. length row > 3 \<and> row ! 3 = str_int C) (tl rows) = []"
    and cached: "\<forall>ts v. map_of (cache (cache_manager self)) (''is_day_open:'' @ str_int C) = Some (ts, v)
                   \<longrightarrow> v = RBool False"
  shows "fst (GoogleSheetsClient_is_day_open DEBUG fault [AInt C] [] today t_get t_set self)
           = RBool False"
proof -
  let ?kp = "[Lit ''is_day_open:'', Field 0]"
  let ?f = "\<lambda>s. returned (is_day_open_func fault (arg_chat_id [AInt C] []) today s)"
  let ?res = "fst (cache_result DEBUG ?kp ''is_day_open'' ?f [AInt C] [] t_get t_set self)"
  have key: "cache_key ?kp ''is_day_open'' [AInt C] [] = ''is_day_open:'' @ str_int C"
    by (simp add: cache_key_def)
  have f: "fst (?f s) = RBool False" if "DayStatus s = DayStatus self" "\<not> dummy_mode s" for s
    using is_day_open_func_no_rows [of s C fault today] that norows
    by (simp add: returned_def arg_chat_id_def)
  from cache_result_cases [of self ?kp "''is_day_open''" "[AInt C]" "[]" DEBUG ?f t_get t_set]
  consider (hit) ts where "map_of (cache (cache_manager self)) (''is_day_open:'' @ str_int C)
                             = Some (ts, ?res)"
    | (direct) "?res = fst (?f self)"
    | (miss) cm where "?res = fst (?f (self\<lparr>cache_manager := cm\<rparr>))"
    unfolding key by blast
  then have "?res = RBool False"
  proof cases
    case hit
    with cached show ?thesis by blast
  next
    case direct
    with f [of self] live show ?thesis by simp
  next
    case miss
    with f [of "self\<lparr>cache_manager := cm\<rparr>"] live show ?thesis by simp
  qed
  then show ?thesis
    by (simp add: GoogleSheetsClient_is_day_open_def)
qed

text \<open>In the offline mode \<open>is_day_open\<close> answers with the stored flag \<open>day_open\<close>, for
  every chat and whatever the arguments are, and leaves the client as it was. The offline
  store starts with the flag set, and the offline \<open>set_day_status(is_open)\<close> stores
  \<open>is_open\<close> in it.\<close>

lemma is_day_open_offline:
  "dummy_mode self \<Longrightarrow>
   GoogleSheetsClient_is_day_open DEBUG fault args kwargs today t_get t_set self
     = (RBool (day_open self), self)"
  by (simp add: GoogleSheetsClient_is_day_open_def cache_result_def is_day_open_func_def
                is_day_open_try_def returned_def)

lemma initialize_dummy_mode_day_open:
  "dummy_mode (initialize_dummy_mode now_text self) \<and> day_open (initialize_dummy_mode now_text self)"
  by (simp add: initialize_dummy_mode_def)

lemma set_day_status_offline:
  "dummy_mode self \<Longrightarrow>
   fst (GoogleSheetsClient_set_day_status fault today now_time is_open chat_id self) = Inr True
   \<and> dummy_mode (snd (GoogleSheetsClient_set_day_status fault today now_time is_open chat_id self))
   \<and> day_open (snd (GoogleSheetsClient_set_day_status fault today now_time is_open chat_id self))
       = is_open"
  by (simp add: GoogleSheetsClient_set_day_status_def set_day_status_try_def)

text \<open>
  C5 (as amended), for every client \<open>self\<close> and chat identifier \<open>C\<close>. In live mode, when the
  \<open>DayStatus\<close> worksheet has no row for \<open>C\<close> (it may be missing, empty, or hold rows of
  other chats only) and no answer other than \<open>False\<close> is cached for \<open>C\<close>, \<open>is_day_open(C)\<close>
  returns \<open>False\<close>, whether the backend answers or raises and whatever the \<open>DEBUG\<close> flag
  is. In the offline mode \<open>is_day_open\<close> returns the stored flag \<open>day_open\<close> for every chat
  and every argument list; on the offline store as \<open>_initialize_dummy_mode\<close> leaves it the
  answer is \<open>True\<close>, and after the offline \<open>set_day_status(is_open)\<close> the answer is
  \<open>is_open\<close>.
\<close>

theorem is_day_open_no_rows:
  "(\<not> dummy_mode self
    \<and> (case DayStatus self of
          None \<Rightarrow> True
        | Some rows \<Rightarrow> filter (\<lambda>row. length row > 3 \<and> row ! 3 = str_int C) (tl rows) = [])
    \<and> (\<forall>ts v. map_of (cache (cache_manager self)) (''is_day_open:'' @ str_int C) = Some (ts, v)
            \<longrightarrow> v = RBool False)
    \<longrightarrow> fst (GoogleSheetsClient_is_day_open DEBUG fault [AInt C] [] today t_get t_set self)
          = RBool False)
   \<and> (dummy_mode self
      \<longrightarrow> fst (GoogleSheetsClient_is_day_open DEBUG fault args kwargs today t_get t_set self)
          = RBool (day_open self))
   \<and> fst (GoogleSheetsClient_is_day_open DEBUG fault args kwargs today t_get t_set
             (initialize_dummy_mode now_text self))
      = RBool True
   \<and> (dummy_mode self
      \<longrightarrow> fst (GoogleSheetsClient_is_day_open DEBUG fault args kwargs today t_get t_set
                 (snd (GoogleSheetsClient_set_day_status fault' today now_time is_open chat_id
                         self)))
          = RBool is_open)"
proof (intro conjI impI)
  assume "\<not> dummy_mode self
    \<and> (case DayStatus self of
          None \<Rightarrow> True
        | Some rows \<Rightarrow> filter (\<lambda>row. length row > 3 \<and> row ! 3 = str_int C) (tl rows) = [])
    \<and> (\<forall>ts v. map_of (cache (cache_manager self)) (''is_day_open:'' @ str_int C) = Some (ts, v)
            \<longrightarrow> v = RBool False)"
  then show "fst (GoogleSheetsClient_is_day_open DEBUG fault [AInt C] [] today t_get t_set self)
               = RBool False"
    using is_day_open_no_rows_live [of self C DEBUG fault today t_get t_set] by blast
next
  assume "dummy_mode self"
  then show "fst (GoogleSheetsClient_is_day_open DEBUG fault args kwargs today t_get t_set self)
               = RBool (day_open self)"
    by (simp add: is_day_open_offline)
next
  show "fst (GoogleSheetsClient_is_day_open DEBUG fault args kwargs today t_get t_set
               (initialize_dummy_mode now_text self)) = RBool True"
    using initialize_dummy_mode_day_open [of now_text self]
    by (simp add: is_day_open_offline)
next
  assume "dummy_mode self"
  then show "fst (GoogleSheetsClient_is_day_open DEBUG fault args kwargs today t_get t_set
                    (snd (GoogleSheetsClient_set_day_status fault' today now_time is_open chat_id
                            self)))
               = RBool is_open"
    using set_day_status_offline [of self fault' today now_time is_open chat_id]
    by (simp add: is_day_open_offline)
qed

text \<open>Witness. In live mode the only status row belongs to chat \<open>-200\<close>, and the day of
  chat \<open>-100\<close> is not open. In the offline mode the day of chat \<open>-100\<close> is open on the
  store as it starts, and closed after \<open>set_day_status(False)\<close>.\<close>

theorem is_day_open_no_rows_witness:
  "\<not> dummy_mode ((GoogleSheetsClient_init [])
        \<lparr>DayStatus := Some [DayStatus_header, [''03.11.2026'', DAY_OPEN, ''10:00:00'', ''-200'']]\<rparr>)
   \<and> fst (GoogleSheetsClient_is_day_open False None [AInt (- 100)] [] ''03.11.2026'' 0 1
        ((GoogleSheetsClient_init [])
           \<lparr>DayStatus := Some [DayStatus_header, [''03.11.2026'', DAY_OPEN, ''10:00:00'', ''-200'']]\<rparr>))
       = RBool False
   \<and> dummy_mode (initialize_dummy_mode ''03.11.2026 10:00'' (GoogleSheetsClient_init []))
   \<and> fst (GoogleSheetsClient_is_day_open False None [AInt (- 100)] [] ''03.11.2026'' 0 1
        (initialize_dummy_mode ''03.11.2026 10:00'' (GoogleSheetsClient_init [])))
       = RBool True
   \<and> fst (GoogleSheetsClient_is_day_open False None [AInt (- 100)] [] ''03.11.2026'' 0 1
        (snd (GoogleSheetsClient_set_day_status None ''03.11.2026'' ''10:00:00'' False
                (Some (- 100))
                (initialize_dummy_mode ''03.11.2026 10:00'' (GoogleSheetsClient_init [])))))
       = RBool False"
proof -
  let ?c = "(GoogleSheetsClient_init [])
        \<lparr>DayStatus := Some [DayStatus_header, [''03.11.2026'', DAY_OPEN, ''10:00:00'', ''-200'']]\<rparr>"
  let ?d = "initialize_dummy_mode ''03.11.2026 10:00'' (GoogleSheetsClient_init [])"
  have live: "\<not> dummy_mode ?c"
    by (simp add: GoogleSheetsClient_init_def)
  have norows: "case DayStatus ?c of
                   None \<Rightarrow> True
                 | Some rows \<Rightarrow>
                     filter (\<lambda>row. length row > 3 \<and> row ! 3 = str_int (- 100)) (tl rows) = []"
    by (simp add: str_int_def str_nat.simps)
  have cached: "\<forall>ts v. map_of (cache (cache_manager ?c)) (''is_day_open:'' @ str_int (- 100))
                     = Some (ts, v) \<longrightarrow> v = RBool False"
    by (simp add: GoogleSheetsClient_init_def CacheManager_init_def)
  have offline: "dummy_mode ?d" and flag: "day_open ?d"
    by (simp_all add: initialize_dummy_mode_def)
  note l = is_day_open_no_rows
             [where self = ?c and C = "- 100" and DEBUG = False and fault = None
                and today = "''03.11.2026''" and t_get = 0 and t_set = 1, THEN conjunct1,
              rule_format, OF conjI [OF live conjI [OF norows cached]]]
  note d = is_day_open_no_rows
             [where self = ?d and DEBUG = False and fault = None and args = "[AInt (- 100)]"
                and kwargs = "[]" and today = "''03.11.2026''" and t_get = 0 and t_set = 1
                and fault' = None and now_time = "''10:00:00''" and is_open = False
                and chat_id = "Some (- 100)", THEN conjunct2]
  note d1 = d [THEN conjunct1, rule_format, OF offline]
  note d2 = d [THEN conjunct2, THEN conjunct2, rule_format, OF offline]
  from live l offline d1 flag d2 show ?thesis by simp
qed

text \<open>C5 as stated fails in the offline mode: the offline store starts with its day open
  and \<open>is_day_open\<close> answers with that flag for every chat, although no status row was
  ever appended.\<close>

theorem is_day_open_dummy_counterexample:
  "fst (GoogleSheetsClient_is_day_open False None [AInt 5] [] ''03.11.2026'' 0 1
          (initialize_dummy_mode ''03.11.2026 10:00'' (GoogleSheetsClient_init [])))
     = RBool True
   \<and> DayStatus (initialize_dummy_mode ''03.11.2026 10:00'' (GoogleSheetsClient_init [])) = None"
  by (simp add: GoogleSheetsClient_is_day_open_def cache_result_def initialize_dummy_mode_def
        GoogleSheetsClient_init_def is_day_open_func_def is_day_open_try_def returned_def
        arg_chat_id_def)


subsection \<open>The migration of legacy group labels\<close>

lemmas migrate_simps =
  migrate_transaction_data_def has_chat_id_def new_chat_id_def group_mapping_def
  GROUP_TEST123_def GROUP_E_def legacy_sheet_def STATUS_NOT_PAID_def dict_get_def
  GoogleSheetsClient_update_transaction_def update_transaction_try_def updated_row_def
  update_cells_def str_opt_def CacheManager_invalidate_transaction_cache_def
  CacheManager_invalidate_def CacheManager_invalidate_pattern_def digits_nat.simps

text \<open>Transactions that already bear a chat identifier starting with \<open>-\<close> are skipped:
  a list of such transactions is passed over without an update.\<close>

lemma migrate_loop_skips:
  "list_all (\<lambda>tx. has_chat_id tx = Inr True) txs \<Longrightarrow>
   migrate_loop faults txs updated_count self = (Inr updated_count, self)"
  by (induction txs) (simp_all add: bindE_def)

text \<open>With the decorator out of the way (\<open>DEBUG\<close> on), or once the cached list has
  expired, a second run finds the migrated row and counts no update.\<close>

lemma migration_second_run_without_cache:
  "fst (migrate_transaction_data True None [] 2 3
          (snd (migrate_transaction_data True None [] 0 1
                  (GoogleSheetsClient_init legacy_sheet)))) = 0
   \<and> fst (migrate_transaction_data False None [] 12 13
            (snd (migrate_transaction_data False None [] 0 1
                    (GoogleSheetsClient_init legacy_sheet)))) = 0"
  by (simp add: eval_simps migrate_simps)

text \<open>
  C9 fails on the code in live mode with \<open>DEBUG\<close> off. The first run (clock readings 0
  and 1) reads the worksheet, stores the list under the key
  \<open>get_all_transactions:force_refresh=True\<close>, and rewrites the chat identifier of the
  legacy transaction. The second run, two seconds later, is answered by the decorator from
  the cache with the list from before the migration (the invalidation that
  \<open>force_refresh\<close> asks for sits in the function body, which a cache hit never runs, and
  \<open>update_transaction\<close> invalidates the key of the single transaction only), so it updates
  the same transaction again and counts 1 update, not 0.
\<close>

theorem migration_second_run_repeats_updates:
  "fst (migrate_transaction_data False None [] 0 1 (GoogleSheetsClient_init legacy_sheet)) = 1
   \<and> sheet (snd (migrate_transaction_data False None [] 0 1 (GoogleSheetsClient_init legacy_sheet)))
       = [example_header,
          [''1'', ''01.11.2026 10:00:00'', ''1000'', ''USDT'', ''5'', ''90'', STATUS_NOT_PAID,
           GROUP_TEST123, '''', ''-4608567148'']]
   \<and> fst (migrate_transaction_data False None [] 2 3
            (snd (migrate_transaction_data False None [] 0 1
                    (GoogleSheetsClient_init legacy_sheet)))) = 1"
  by (simp add: eval_simps migrate_simps)


subsection \<open>add_transaction\<close>

lemmas num_simps =
  py_float_def float_unsigned_def mantissa_def strip_def is_space_def digit_val_def py_int_def
  signed_group_def group_nat_def ungroup_def

lemmas add_simps =
  GoogleSheetsClient_add_transaction_def add_transaction_try_def hash_data_def dict_get_def
  dict_index_def bindE_def api_def col_values_def isdigit_def digit_val_def list_max_def
  example_sheet_def example_header_def GoogleSheetsClient_init_def initialize_dummy_mode_def
  str_int_def str_nat.simps Let_def

lemma sheets_add_live:
  assumes "\<not> dummy_mode self"
    and "fst (GoogleSheetsClient_add_transaction fault now_text data self) = Inr n"
  shows "\<exists>row. sheet (snd (GoogleSheetsClient_add_transaction fault now_text data self))
               = sheet self @ [row]
             \<and> row ! 0 = str_int n \<and> row ! 6 = STATUS_NOT_PAID \<and> row ! 8 = []"
  using assms
  by (auto simp: GoogleSheetsClient_add_transaction_def add_transaction_try_def api_def
                 bindE_def Let_def split: sum.splits if_splits list.splits prod.splits)

lemma sheets_add_dummy:
  assumes "dummy_mode self"
    and "fst (GoogleSheetsClient_add_transaction fault now_text data self) = Inr n"
  shows "\<exists>t. daily_transactions (snd (GoogleSheetsClient_add_transaction fault now_text data self))
               = daily_transactions self @ [t]
             \<and> map_of t ''id'' = Some (PInt n)
             \<and> map_of t ''status'' = Some (PStr STATUS_NOT_PAID)
             \<and> map_of t ''hash'' = Some (PStr [])"
  using assms
  by (auto simp: GoogleSheetsClient_add_transaction_def add_transaction_try_def api_def
                 bindE_def Let_def split: sum.splits if_splits list.splits prod.splits)

lemma db_add:
  assumes "fst (DatabaseManager_add_transaction fault now_text chat_id data db) = Inr n"
  shows "\<exists>t. transaction_table (snd (DatabaseManager_add_transaction fault now_text chat_id data db))
               = transaction_table db @ [t]
             \<and> t_id t = n \<and> t_status t = STATUS_NOT_PAID
             \<and> t_transaction_hash t = str_val (dict_get data ''hash'' (PStr []))"
  using assms
  by (auto simp: DatabaseManager_add_transaction_def api_def bindE_def Let_def
           split: sum.splits if_splits)

text \<open>
  C8 (as amended). Whatever the input dictionary holds, a transaction that
  \<open>add_transaction\<close> creates is appended after the existing ones with the status text
  "not paid out". In the spreadsheet store, live or offline, its hash is empty. In the
  relational store its hash is the value that the input gives under \<open>hash\<close>, and empty
  when the input has no such key.
\<close>

theorem add_transaction_status_and_hash:
  "(\<not> dummy_mode self \<and> fst (GoogleSheetsClient_add_transaction fault now_text data self) = Inr n
      \<longrightarrow> butlast (sheet (snd (GoogleSheetsClient_add_transaction fault now_text data self)))
            = sheet self
          \<and> last (sheet (snd (GoogleSheetsClient_add_transaction fault now_text data self))) ! 0
            = str_int n
          \<and> last (sheet (snd (GoogleSheetsClient_add_transaction fault now_text data self))) ! 6
            = STATUS_NOT_PAID
          \<and> last (sheet (snd (GoogleSheetsClient_add_transaction fault now_text data self))) ! 8
            = [])
   \<and> (dummy_mode self \<and> fst (GoogleSheetsClient_add_transaction fault now_text data self) = Inr n
      \<longrightarrow> butlast (daily_transactions
                     (snd (GoogleSheetsClient_add_transaction fault now_text data self)))
            = daily_transactions self
          \<and> map_of (last (daily_transactions
                     (snd (GoogleSheetsClient_add_transaction fault now_text data self)))) ''id''
            = Some (PInt n)
          \<and> map_of (last (daily_transactions
                     (snd (GoogleSheetsClient_add_transaction fault now_text data self)))) ''status''
            = Some (PStr STATUS_NOT_PAID)
          \<and> map_of (last (daily_transactions
                     (snd (GoogleSheetsClient_add_transaction fault now_text data self)))) ''hash''
            = Some (PStr []))
   \<and> (fst (DatabaseManager_add_transaction fault' now_text chat_id data db) = Inr m
      \<longrightarrow> butlast (transaction_table
                     (snd (DatabaseManager_add_transaction fault' now_text chat_id data db)))
            = transaction_table db
          \<and> t_id (last (transaction_table
                     (snd (DatabaseManager_add_transaction fault' now_text chat_id data db)))) = m
          \<and> t_status (last (transaction_table
                     (snd (DatabaseManager_add_transaction fault' now_text chat_id data db))))
            = STATUS_NOT_PAID
          \<and> t_transaction_hash (last (transaction_table
                     (snd (DatabaseManager_add_transaction fault' now_text chat_id data db))))
            = str_val (dict_get data ''hash'' (PStr [])))"
proof (intro conjI impI)
  assume a: "\<not> dummy_mode self
             \<and> fst (GoogleSheetsClient_add_transaction fault now_text data self) = Inr n"
  then obtain row where
    "sheet (snd (GoogleSheetsClient_add_transaction fault now_text data self)) = sheet self @ [row]"
    "row ! 0 = str_int n" "row ! 6 = STATUS_NOT_PAID" "row ! 8 = []"
    using sheets_add_live [of self fault now_text data n] by blast
  then show
    "butlast (sheet (snd (GoogleSheetsClient_add_transaction fault now_text data self)))
       = sheet self"
    "last (sheet (snd (GoogleSheetsClient_add_transaction fault now_text data self))) ! 0
       = str_int n"
    "last (sheet (snd (GoogleSheetsClient_add_transaction fault now_text data self))) ! 6
       = STATUS_NOT_PAID"
    "last (sheet (snd (GoogleSheetsClient_add_transaction fault now_text data self))) ! 8 = []"
    by simp_all
next
  assume a: "dummy_mode self
             \<and> fst (GoogleSheetsClient_add_transaction fault now_text data self) = Inr n"
  then obtain t where
    "daily_transactions (snd (GoogleSheetsClient_add_transaction fault now_text data self))
       = daily_transactions self @ [t]"
    "map_of t ''id'' = Some (PInt n)" "map_of t ''status'' = Some (PStr STATUS_NOT_PAID)"
    "map_of t ''hash'' = Some (PStr [])"
    using sheets_add_dummy [of self fault now_text data n] by blast
  then show
    "butlast (daily_transactions
                (snd (GoogleSheetsClient_add_transaction fault now_text data self)))
       = daily_transactions self"
    "map_of (last (daily_transactions
                (snd (GoogleSheetsClient_add_transaction fault now_text data self)))) ''id''
       = Some (PInt n)"
    "map_of (last (daily_transactions
                (snd (GoogleSheetsClient_add_transaction fault now_text data self)))) ''status''
       = Some (PStr STATUS_NOT_PAID)"
    "map_of (last (daily_transactions
                (snd (GoogleSheetsClient_add_transaction fault now_text data self)))) ''hash''
       = Some (PStr [])"
    by simp_all
next
  assume a: "fst (DatabaseManager_add_transaction fault' now_text chat_id data db) = Inr m"
  then obtain t where
    "transaction_table (snd (DatabaseManager_add_transaction fault' now_text chat_id data db))
       = transaction_table db @ [t]"
    "t_id t = m" "t_status t = STATUS_NOT_PAID"
    "t_transaction_hash t = str_val (dict_get data ''hash'' (PStr []))"
    using db_add [of fault' now_text chat_id data db m] by blast
  then show
    "butlast (transaction_table
                (snd (DatabaseManager_add_transaction fault' now_text chat_id data db)))
       = transaction_table db"
    "t_id (last (transaction_table
                (snd (DatabaseManager_add_transaction fault' now_text chat_id data db)))) = m"
    "t_status (last (transaction_table
                (snd (DatabaseManager_add_transaction fault' now_text chat_id data db))))
       = STATUS_NOT_PAID"
    "t_transaction_hash (last (transaction_table
                (snd (DatabaseManager_add_transaction fault' now_text chat_id data db))))
       = str_val (dict_get data ''hash'' (PStr []))"
    by simp_all
qed

text \<open>Witness: an input that supplies the status \<open>paid\<close> and a hash, added to the live
  example worksheet, to the offline store and to an empty database.\<close>

theorem add_transaction_status_and_hash_witness:
  "last (sheet (snd (GoogleSheetsClient_add_transaction None ''03.11.2026 10:00:00'' hash_data
                       (GoogleSheetsClient_init example_sheet)))) ! 6 = STATUS_NOT_PAID
   \<and> last (sheet (snd (GoogleSheetsClient_add_transaction None ''03.11.2026 10:00:00'' hash_data
                       (GoogleSheetsClient_init example_sheet)))) ! 8 = []
   \<and> map_of (last (daily_transactions
              (snd (GoogleSheetsClient_add_transaction None ''03.11.2026 10:00:00'' hash_data
                      (initialize_dummy_mode ''03.11.2026 09:00'' (GoogleSheetsClient_init [])))))) ''status''
       = Some (PStr STATUS_NOT_PAID)
   \<and> map_of (last (daily_transactions
              (snd (GoogleSheetsClient_add_transaction None ''03.11.2026 10:00:00'' hash_data
                      (initialize_dummy_mode ''03.11.2026 09:00'' (GoogleSheetsClient_init [])))))) ''hash''
       = Some (PStr [])
   \<and> t_status (last (transaction_table
              (snd (DatabaseManager_add_transaction None ''03.11.2026 10:00:00'' (- 100) hash_data
                      \<lparr>transaction_table = [], chat_settings_table = []\<rparr>))))
       = STATUS_NOT_PAID
   \<and> t_transaction_hash (last (transaction_table
              (snd (DatabaseManager_add_transaction None ''03.11.2026 10:00:00'' (- 100) hash_data
                      \<lparr>transaction_table = [], chat_settings_table = []\<rparr>))))
       = ''0xabc''"
proof -
  let ?live = "GoogleSheetsClient_init example_sheet"
  let ?dummy = "initialize_dummy_mode ''03.11.2026 09:00'' (GoogleSheetsClient_init [])"
  let ?db = "\<lparr>transaction_table = [], chat_settings_table = []\<rparr>"
  have l: "\<not> dummy_mode ?live
           \<and> fst (GoogleSheetsClient_add_transaction None ''03.11.2026 10:00:00'' hash_data ?live)
               = Inr 8"
    by (simp add: add_simps)
  have d: "dummy_mode ?dummy
           \<and> fst (GoogleSheetsClient_add_transaction None ''03.11.2026 10:00:00'' hash_data ?dummy)
               = Inr 2"
    by (simp add: add_simps dummy_ids.simps)
  have b: "fst (DatabaseManager_add_transaction None ''03.11.2026 10:00:00'' (- 100) hash_data ?db)
             = Inr 1"
    by (simp add: DatabaseManager_add_transaction_def fits_integer_column_def hash_data_def
                  dict_get_def bindE_def api_def num_simps ROUBLE_SIGN_def)
  have h: "str_val (dict_get hash_data ''hash'' (PStr [])) = ''0xabc''"
    by (simp add: hash_data_def dict_get_def)
  note live_part = add_transaction_status_and_hash
    [of ?live None "''03.11.2026 10:00:00''" hash_data 8 None "- 100" ?db 1,
     THEN conjunct1, rule_format, OF l]
  note dummy_part = add_transaction_status_and_hash
    [of ?dummy None "''03.11.2026 10:00:00''" hash_data 2 None "- 100" ?db 1,
     THEN conjunct2, THEN conjunct1, rule_format, OF d]
  note db_part = add_transaction_status_and_hash
    [of ?live None "''03.11.2026 10:00:00''" hash_data 8 None "- 100" ?db 1,
     THEN conjunct2, THEN conjunct2, rule_format, OF b, unfolded h]
  from live_part dummy_part db_part show ?thesis
    by blast
qed

text \<open>C8 as stated fails in the relational store: the hash that the input supplies is
  stored with the new transaction.\<close>

theorem db_add_transaction_keeps_hash_counterexample:
  "DatabaseManager_add_transaction None ''03.11.2026 10:00:00'' (- 100) hash_data
       \<lparr>transaction_table = [], chat_settings_table = []\<rparr>
   = (Inr 1,
      \<lparr>transaction_table =
         [\<lparr>t_id = 1, t_chat_id = - 100, t_amount = 1000, t_method = ''USDT'', t_commission = 5,
           t_rate = 185 / 2, t_status = STATUS_NOT_PAID, t_transaction_hash = ''0xabc'',
           t_created_at = ''03.11.2026 10:00:00'', t_updated_at = ''03.11.2026 10:00:00''\<rparr>],
       chat_settings_table = []\<rparr>)"
  by (simp add: DatabaseManager_add_transaction_def fits_integer_column_def hash_data_def
                dict_get_def bindE_def api_def num_simps ROUBLE_SIGN_def)

subsection \<open>Daily statistics\<close>

text \<open>The query of \<open>DatabaseManager.get_daily_statistics\<close> reads \<open>Transaction.date\<close>,
  which the model class does not declare: the \<open>try\<close> block raises before it looks at a
  row, and the \<open>except\<close> clause answers with the all-zero statistics, whatever the
  database holds.\<close>

lemma db_daily_statistics_always_empty:
  "DatabaseManager_get_daily_statistics db chat_id force_refresh current_date = db_empty_stats"
  by (simp add: DatabaseManager_get_daily_statistics_def db_statistics_try_def class_attr_def
                Transaction_columns_def bindE_def)

lemmas stats_simps =
  GoogleSheetsClient_get_daily_statistics_def get_daily_statistics_func_def
  get_daily_statistics_body_def
  GoogleSheetsClient_get_day_settings_def get_day_settings_func_def get_day_settings_try_def
  settings_of_rows_def cell_or_empty_def arg_chat_id_def write_back_def filter_step_def
  compute_statistics_def to_pay_step_def rate_of_def commission_of_def average_def
  count_methods_def round2_def py_round_def lower_def lower_char_def paid_lower_def
  py_float_def float_unsigned_def mantissa_def group_nat_def ungroup_def dict_index_def
  dict_get_def remove_all.simps
  stats_client_def STATUS_PAID_def STATUS_NOT_PAID_def digits_nat.simps DaySettings_header_def

text \<open>The spreadsheet store computes the statistics of the example: total 6000, paid
  out 1000, awaiting 5000, to pay 4500, and 60 USDT in total.\<close>

lemma sheets_daily_statistics_example:
  "fst (GoogleSheetsClient_get_daily_statistics False None None [AInt (- 100)]
          [(''force_refresh'', ABool False)] ''03.11.2026'' 0 1 0 1 0 1 stats_client)
   = RStats \<lparr>stats_date = Some ''03.11.2026'', transactions_count = 3, total_amount = 6000,
              awaiting_amount = 5000, to_pay_amount = 4500, paid_amount = 1000, avg_rate = 100,
              avg_commission = 10, unpaid_usdt = 50, to_pay_usdt = 45, total_usdt = 60,
              paid_usdt = 10, methods_count = Some [(PStr ''USDT'', 3)]\<rparr>"
  by (simp add: eval_simps stats_simps)

text \<open>
  C4 fails on the code in the relational store: for the chat \<open>-100\<close> with the three
  transactions of 1000 (paid out), 2000 and 3000 (not paid out), commission 10 and rate
  100, \<open>DatabaseManager.get_daily_statistics\<close> returns 0 for \<open>total_amount\<close>,
  \<open>paid_amount\<close>, \<open>awaiting_amount\<close>, \<open>to_pay_amount\<close> and \<open>total_usdt\<close>, and counts no
  transaction, where the spreadsheet store returns 6000, 1000, 5000, 4500 and 60.
\<close>

theorem db_daily_statistics_example:
  "total_amount (DatabaseManager_get_daily_statistics stats_database (- 100) False
                   ''03.11.2026'') = 0
   \<and> paid_amount (DatabaseManager_get_daily_statistics stats_database (- 100) False
                     ''03.11.2026'') = 0
   \<and> awaiting_amount (DatabaseManager_get_daily_statistics stats_database (- 100) False
                         ''03.11.2026'') = 0
   \<and> to_pay_amount (DatabaseManager_get_daily_statistics stats_database (- 100) False
                       ''03.11.2026'') = 0
   \<and> total_usdt (DatabaseManager_get_daily_statistics stats_database (- 100) False
                    ''03.11.2026'') = 0
   \<and> transactions_count (DatabaseManager_get_daily_statistics stats_database (- 100) False
                            ''03.11.2026'') = 0"
  by (simp add: DatabaseManager_get_daily_statistics_def db_statistics_try_def class_attr_def
                Transaction_columns_def bindE_def db_empty_stats_def)

subsection \<open>Backend faults\<close>

lemma add_fault0:
  "\<not> dummy_mode self \<Longrightarrow>
   GoogleSheetsClient_add_transaction (Some 0) now_text data self = (Inl BackendError, self)"
  by (simp add: GoogleSheetsClient_add_transaction_def add_transaction_try_def api_def bindE_def)

lemma add_raises_unchanged:
  "fst (GoogleSheetsClient_add_transaction fault now_text data self) = Inl e \<Longrightarrow>
   snd (GoogleSheetsClient_add_transaction fault now_text data self) = self"
  by (simp add: GoogleSheetsClient_add_transaction_def split: sum.splits prod.splits)

lemma add_fault1:
  "\<not> dummy_mode self \<Longrightarrow>
   (\<exists>e. fst (GoogleSheetsClient_add_transaction (Some 1) now_text data self) = Inl e)
   \<and> (fst (GoogleSheetsClient_add_transaction (Some 1) now_text data self) = Inl BackendError
      \<or> fst (GoogleSheetsClient_add_transaction (Some 1) now_text data self)
          = fst (GoogleSheetsClient_add_transaction None now_text data self))"
  by (auto simp add: GoogleSheetsClient_add_transaction_def add_transaction_try_def api_def
                bindE_def Let_def split: sum.splits list.splits)

lemma update_never_raises:
  "\<exists>b. fst (GoogleSheetsClient_update_transaction fault transaction_id data self) = Inr b"
  by (auto simp add: GoogleSheetsClient_update_transaction_def split: sum.splits prod.splits)

lemma update_fault0:
  "\<not> dummy_mode self \<Longrightarrow>
   GoogleSheetsClient_update_transaction (Some 0) transaction_id data self = (Inr False, self)"
  by (simp add: GoogleSheetsClient_update_transaction_def update_transaction_try_def api_def
                bindE_def)

lemma update_fault_cases:
  "GoogleSheetsClient_update_transaction fault transaction_id data self = (Inr False, self)
   \<or> GoogleSheetsClient_update_transaction fault transaction_id data self
      = GoogleSheetsClient_update_transaction None transaction_id data self"
  by (auto simp add: GoogleSheetsClient_update_transaction_def update_transaction_try_def api_def
                bindE_def split: option.splits)

lemma get_transaction_fault0:
  "\<not> dummy_mode self \<Longrightarrow>
   get_transaction_func (Some 0) transaction_id self = (Inr RNone, self)"
  by (simp add: get_transaction_func_def get_transaction_try_def api_def bindE_def)

lemma get_transaction_fault_cases:
  "get_transaction_func fault transaction_id self = (Inr RNone, self)
   \<or> get_transaction_func fault transaction_id self = get_transaction_func None transaction_id self"
  by (auto simp add: get_transaction_func_def get_transaction_try_def api_def
                bindE_def split: option.splits)

lemma get_all_fault0:
  "\<not> dummy_mode self \<Longrightarrow>
   fst (get_all_transactions_func (Some 0) date_arg force_refresh self) = Inr (RList [])"
  by (simp add: get_all_transactions_func_def get_all_transactions_try_def api_def bindE_def
                Let_def)

lemma get_all_fault_cases:
  "fst (get_all_transactions_func fault date_arg force_refresh self) = Inr (RList [])
   \<or> get_all_transactions_func fault date_arg force_refresh self
      = get_all_transactions_func None date_arg force_refresh self"
  by (auto simp add: get_all_transactions_func_def get_all_transactions_try_def api_def
                bindE_def Let_def)

lemma get_transaction_never_raises:
  "\<exists>r. fst (get_transaction_func fault transaction_id self) = Inr r"
  by (simp add: get_transaction_func_def split: sum.splits)

lemma get_all_never_raises:
  "\<exists>r. fst (get_all_transactions_func fault date_arg force_refresh self) = Inr r"
  by (simp add: get_all_transactions_func_def Let_def split: sum.splits)

lemma mark_paid_never_raises:
  "\<exists>b. fst (GoogleSheetsClient_mark_transaction_paid DEBUG f_get f_upd transaction_id
                 transaction_hash t_get t_set self) = Inr b"
proof -
  obtain transaction self1 where g:
    "GoogleSheetsClient_get_transaction DEBUG f_get transaction_id t_get t_set self
       = (transaction, self1)"
    by (cases "GoogleSheetsClient_get_transaction DEBUG f_get transaction_id t_get t_set self")
  obtain res self2 where u:
    "GoogleSheetsClient_update_transaction f_upd (Some (PInt transaction_id))
       [(''status'', PStr STATUS_PAID), (''hash'', PStr transaction_hash)] self1 = (res, self2)"
    by (cases "GoogleSheetsClient_update_transaction f_upd (Some (PInt transaction_id))
       [(''status'', PStr STATUS_PAID), (''hash'', PStr transaction_hash)] self1")
  from update_never_raises [of f_upd "Some (PInt transaction_id)"
       "[(''status'', PStr STATUS_PAID), (''hash'', PStr transaction_hash)]" self1] u
  obtain b where b: "res = Inr b" by auto
  show ?thesis
    by (auto simp add: GoogleSheetsClient_mark_transaction_paid_def g u b)
qed

lemma is_day_open_never_raises:
  "\<exists>b. fst (is_day_open_func fault chat_id today self) = Inr (RBool b)"
proof (cases "is_day_open_try fault chat_id today self")
  case (Pair r self')
  show ?thesis
  proof (cases r)
    case (Inl e)
    with Pair show ?thesis by (auto simp add: is_day_open_func_def)
  next
    case (Inr v)
    have "\<exists>b. v = RBool b"
      using Pair Inr
      by (auto simp add: is_day_open_try_def Let_def split: if_splits option.splits)
    with Pair Inr show ?thesis by (auto simp add: is_day_open_func_def)
  qed
qed

lemma get_day_settings_never_raises:
  "\<exists>r. fst (get_day_settings_func fault chat_id today self) = Inr r"
  by (cases "get_day_settings_try fault chat_id today self")
     (auto simp add: get_day_settings_func_def split: sum.splits)

lemma get_daily_statistics_never_raises:
  "\<exists>s. fst (get_daily_statistics_func DEBUG f_all f_set chat_id force_refresh current_date
                 t1 t1' t2 t2' self) = Inr (RStats s)"
  by (simp add: get_daily_statistics_func_def)

lemma set_day_status_fault0:
  "\<not> dummy_mode self \<Longrightarrow>
   GoogleSheetsClient_set_day_status (Some 0) today now_time is_open chat_id self
     = (Inr False, self)"
  by (simp add: GoogleSheetsClient_set_day_status_def set_day_status_try_def)

lemma set_day_status_never_raises:
  "\<exists>b. fst (GoogleSheetsClient_set_day_status fault today now_time is_open chat_id self) = Inr b"
  by (cases "set_day_status_try fault today now_time is_open chat_id self")
     (auto simp add: GoogleSheetsClient_set_day_status_def split: sum.splits)

lemma save_day_settings_fault0:
  "\<not> dummy_mode self \<Longrightarrow>
   GoogleSheetsClient_save_day_settings (Some 0) today rate_arg commission_arg rate_text
     commission_text chat_id self = (Inr False, self)"
  by (simp add: GoogleSheetsClient_save_day_settings_def save_day_settings_try_def)

lemma save_day_settings_never_raises:
  "\<exists>b. fst (GoogleSheetsClient_save_day_settings fault today rate_arg commission_arg rate_text
                 commission_text chat_id self) = Inr b"
  by (cases "save_day_settings_try fault today rate_arg commission_arg rate_text
               commission_text chat_id self")
     (auto simp add: GoogleSheetsClient_save_day_settings_def split: sum.splits)

text \<open>
  C7, for the spreadsheet store in live mode. When the first remote call of
  \<open>add_transaction\<close> raises, the exception reaches the caller and the client is left as it
  was; when the second one (the append of the row) is the one that raises,
  \<open>add_transaction\<close> raises as well, the backend exception or the exception that the
  input raises before the append is reached. \<open>update_transaction\<close> answers \<open>False\<close>,
  \<open>get_transaction\<close> answers \<open>None\<close> and \<open>get_all_transactions\<close> answers the empty list when
  their first remote call raises, and under every fault they answer either that default
  or what they answer when no call raises. \<open>set_day_status\<close> and \<open>save_day_settings\<close>
  answer \<open>False\<close> when their first remote call raises; they, \<open>mark_transaction_paid\<close>,
  \<open>is_day_open\<close>, \<open>get_day_settings\<close> and \<open>get_daily_statistics\<close> return a value under
  every fault. So \<open>add_transaction\<close> is the only one of these operations that hands a
  backend exception to its caller.
\<close>

theorem backend_error_handling:
  assumes live: "\<not> dummy_mode self"
  shows
    "GoogleSheetsClient_add_transaction (Some 0) now_text data self = (Inl BackendError, self)
     \<and> (\<exists>e. GoogleSheetsClient_add_transaction (Some 1) now_text data self = (Inl e, self))
     \<and> (fst (GoogleSheetsClient_add_transaction (Some 1) now_text data self) = Inl BackendError
        \<or> fst (GoogleSheetsClient_add_transaction (Some 1) now_text data self)
            = fst (GoogleSheetsClient_add_transaction None now_text data self))
     \<and> GoogleSheetsClient_update_transaction (Some 0) uid data self = (Inr False, self)
     \<and> (GoogleSheetsClient_update_transaction fault uid data self = (Inr False, self)
        \<or> GoogleSheetsClient_update_transaction fault uid data self
            = GoogleSheetsClient_update_transaction None uid data self)
     \<and> get_transaction_func (Some 0) transaction_id self = (Inr RNone, self)
     \<and> (get_transaction_func fault transaction_id self = (Inr RNone, self)
        \<or> get_transaction_func fault transaction_id self
            = get_transaction_func None transaction_id self)
     \<and> fst (get_all_transactions_func (Some 0) date_arg force_refresh self) = Inr (RList [])
     \<and> (fst (get_all_transactions_func fault date_arg force_refresh self) = Inr (RList [])
        \<or> get_all_transactions_func fault date_arg force_refresh self
            = get_all_transactions_func None date_arg force_refresh self)
     \<and> (\<exists>b. fst (GoogleSheetsClient_mark_transaction_paid DEBUG f_get f_upd transaction_id
                    transaction_hash t_get t_set self) = Inr b)
     \<and> (\<exists>b. fst (is_day_open_func fault chat_id today self) = Inr (RBool b))
     \<and> (\<exists>r. fst (get_day_settings_func fault chat_id today self) = Inr r)
     \<and> (\<exists>s. fst (get_daily_statistics_func DEBUG f_all f_set chat_id force_refresh today
                    t1 t1' t2 t2' self) = Inr (RStats s))
     \<and> GoogleSheetsClient_set_day_status (Some 0) today now_time is_open chat_id self
        = (Inr False, self)
     \<and> (\<exists>b. fst (GoogleSheetsClient_set_day_status fault today now_time is_open chat_id self)
              = Inr b)
     \<and> GoogleSheetsClient_save_day_settings (Some 0) today rate_arg commission_arg rate_text
          commission_text chat_id self = (Inr False, self)
     \<and> (\<exists>b. fst (GoogleSheetsClient_save_day_settings fault today rate_arg commission_arg
                    rate_text commission_text chat_id self) = Inr b)
     \<and> (\<exists>b. fst (GoogleSheetsClient_update_transaction fault uid data self) = Inr b)
     \<and> (\<exists>r. fst (get_transaction_func fault transaction_id self) = Inr r)
     \<and> (\<exists>r. fst (get_all_transactions_func fault date_arg force_refresh self) = Inr r)"
proof -
  note a1 = add_fault1 [OF live, of now_text data]
  from a1 obtain e where e: "fst (GoogleSheetsClient_add_transaction (Some 1) now_text data self)
                               = Inl e"
    by blast
  have "GoogleSheetsClient_add_transaction (Some 1) now_text data self = (Inl e, self)"
    using e add_raises_unchanged [OF e]
    by (cases "GoogleSheetsClient_add_transaction (Some 1) now_text data self") simp
  then have x: "\<exists>e. GoogleSheetsClient_add_transaction (Some 1) now_text data self = (Inl e, self)"
    by blast
  show ?thesis
    by (intro conjI)
       (rule add_fault0 [OF live], rule x, rule a1 [THEN conjunct2],
        rule update_fault0 [OF live], rule update_fault_cases,
        rule get_transaction_fault0 [OF live], rule get_transaction_fault_cases,
        rule get_all_fault0 [OF live], rule get_all_fault_cases,
        rule mark_paid_never_raises, rule is_day_open_never_raises,
        rule get_day_settings_never_raises, rule get_daily_statistics_never_raises,
        rule set_day_status_fault0 [OF live], rule set_day_status_never_raises,
        rule save_day_settings_fault0 [OF live], rule save_day_settings_never_raises,
        rule update_never_raises, rule get_transaction_never_raises,
        rule get_all_never_raises)
qed

text \<open>Witness: the live client on the example worksheet, with the first remote call of
  each operation raising.\<close>

theorem backend_error_handling_witness:
  "\<not> dummy_mode (GoogleSheetsClient_init example_sheet)
   \<and> GoogleSheetsClient_add_transaction (Some 0) ''03.11.2026 10:00:00'' hash_data
        (GoogleSheetsClient_init example_sheet)
      = (Inl BackendError, GoogleSheetsClient_init example_sheet)
   \<and> GoogleSheetsClient_update_transaction (Some 0) (Some (PInt 7)) hash_data
        (GoogleSheetsClient_init example_sheet)
      = (Inr False, GoogleSheetsClient_init example_sheet)
   \<and> get_transaction_func (Some 0) 7 (GoogleSheetsClient_init example_sheet)
      = (Inr RNone, GoogleSheetsClient_init example_sheet)
   \<and> fst (get_all_transactions_func (Some 0) None False (GoogleSheetsClient_init example_sheet))
      = Inr (RList [])
   \<and> GoogleSheetsClient_set_day_status (Some 0) ''03.11.2026'' ''10:00:00'' True None
        (GoogleSheetsClient_init example_sheet)
      = (Inr False, GoogleSheetsClient_init example_sheet)
   \<and> GoogleSheetsClient_save_day_settings (Some 0) ''03.11.2026'' 100 10 ''100'' ''10'' None
        (GoogleSheetsClient_init example_sheet)
      = (Inr False, GoogleSheetsClient_init example_sheet)"
proof -
  have live: "\<not> dummy_mode (GoogleSheetsClient_init example_sheet)"
    by (simp add: GoogleSheetsClient_init_def)
  note t = backend_error_handling
             [OF live, where now_text = "''03.11.2026 10:00:00''" and data = hash_data
                and uid = "Some (PInt 7)" and transaction_id = 7 and date_arg = None
                and force_refresh = False and fault = None and DEBUG = False
                and f_get = None and f_upd = None and transaction_hash = "''0xabc''"
                and t_get = 0 and t_set = 0 and chat_id = None and today = "''03.11.2026''"
                and f_all = None and f_set = None and ?t1.0 = 0 and t1' = 0 and ?t2.0 = 0
                and t2' = 0 and now_time = "''10:00:00''" and is_open = True
                and rate_arg = 100 and commission_arg = 10 and rate_text = "''100''"
                and commission_text = "''10''"]
  from live t show ?thesis by simp
qed

text \<open>The relational store, for comparison: \<open>add_transaction\<close> raises when its commit
  raises, and \<open>update_transaction\<close> answers \<open>False\<close> under every fault. \<open>is_day_open\<close> has
  no \<open>try\<close> statement: what its query raises reaches the caller.\<close>

lemma db_add_fault0:
  "\<exists>e. DatabaseManager_add_transaction (Some 0) now_text chat_id data db = (Inl e, db)"
  by (auto simp add: DatabaseManager_add_transaction_def api_def bindE_def Let_def
           split: sum.splits)

lemma db_update_fault0:
  "DatabaseManager_update_transaction (Some 0) now_text transaction_id data db = (Inr False, db)"
  by (simp add: DatabaseManager_update_transaction_def api_def bindE_def)

lemma db_update_never_raises:
  "\<exists>b. fst (DatabaseManager_update_transaction fault now_text transaction_id data db) = Inr b"
  by (auto simp add: DatabaseManager_update_transaction_def split: sum.splits prod.splits)

lemma db_is_day_open_fault0:
  "DatabaseManager_is_day_open (Some 0) chat_id db = Inl BackendError"
  by (simp add: DatabaseManager_is_day_open_def api_def bindE_def)

end
